theory Spec2Isabelle
  imports Main "HOL-Library.AList"
begin

section \<open>Errors\<close>

text \<open>
  The exceptions that the modelled code can raise: the ORM's lookup and constraint errors,
  the 404 of the generic detail view, and the interpreter's own errors for a name or an
  attribute that does not exist (with the name that was looked up).
\<close>

datatype py_error =
    DoesNotExist
  | MultipleObjectsReturned
  | IntegrityError
  | DatabaseError
  | Http404
  | ValueError
  | NameError string
  | AttributeError string

section \<open>Tables and the ORM operations the models use\<close>

text \<open>
  A table is the list of its rows, each under its primary key. A model instance in memory
  is a pair of an optional primary key (\<open>None\<close> until the first save) and the field values.
  The key the database gives to a new row is modelled as one more than the largest key in
  use; only its freshness matters below.
\<close>

type_synonym 'r table = "(nat \<times> 'r) list"

type_synonym 'r obj = "nat option \<times> 'r"

definition fresh_pk :: "'r table \<Rightarrow> nat" where
  "fresh_pk tbl = Suc (fold max (map fst tbl) 0)"

text \<open>\<open>QuerySet.filter(...)\<close>, \<open>.update(...)\<close>, \<open>.get(...)\<close> and \<open>.first()\<close>
  (the row of least primary key among the matches).\<close>

definition qs_filter :: "('r \<Rightarrow> bool) \<Rightarrow> 'r table \<Rightarrow> 'r table" where
  "qs_filter P tbl = filter (\<lambda>(k, r). P r) tbl"

definition qs_update :: "('r \<Rightarrow> bool) \<Rightarrow> ('r \<Rightarrow> 'r) \<Rightarrow> 'r table \<Rightarrow> 'r table" where
  "qs_update P f tbl = map (\<lambda>(k, r). if P r then (k, f r) else (k, r)) tbl"

definition qs_get :: "('r \<Rightarrow> bool) \<Rightarrow> 'r table \<Rightarrow> py_error + (nat \<times> 'r)" where
  "qs_get P tbl =
     (case qs_filter P tbl of
        [] \<Rightarrow> Inl DoesNotExist
      | [x] \<Rightarrow> Inr x
      | _ \<Rightarrow> Inl MultipleObjectsReturned)"

definition qs_first :: "('r \<Rightarrow> bool) \<Rightarrow> 'r table \<Rightarrow> (nat \<times> 'r) option" where
  "qs_first P tbl =
     (case qs_filter P tbl of
        [] \<Rightarrow> None
      | x # xs \<Rightarrow> Some (fold (\<lambda>y m. if fst y < fst m then y else m) xs x))"

text \<open>
  \<open>Model.save()\<close> of the framework: the row is written under the instance's primary key,
  replacing the row that has this key or, when there is none (or the instance has no key
  yet), as a new row. The write is refused with \<open>IntegrityError\<close> when another row
  clashes with the new values on a column declared \<open>unique\<close>; \<open>clash\<close> is the
  model's uniqueness constraint. The result is the new table and the saved instance.
\<close>

definition Model_save ::
  "('r \<Rightarrow> 'r \<Rightarrow> bool) \<Rightarrow> 'r table \<Rightarrow> 'r obj \<Rightarrow> py_error + ('r table \<times> (nat \<times> 'r))" where
  "Model_save clash tbl self =
     (let k = (case fst self of Some k \<Rightarrow> k | None \<Rightarrow> fresh_pk tbl);
          r = snd self
      in if list_ex (\<lambda>(k', r'). k' \<noteq> k \<and> clash r r') tbl then Inl IntegrityError
         else Inr (AList.update k r tbl, (k, r)))"

section \<open>Text, dates and JSON values\<close>

text \<open>
  Strings are modelled as ASCII text. \<open>lower_char\<close> is \<open>str.lower()\<close> on one
  character; \<open>str_nat\<close> and \<open>str_int\<close> are \<open>str()\<close> on an integer, as an
  f-string formats it.
\<close>

definition lower_char :: "char \<Rightarrow> char" where
  "lower_char c =
     (if 65 \<le> (of_char c :: nat) \<and> (of_char c :: nat) \<le> 90
      then char_of ((of_char c :: nat) + 32) else c)"

definition lower :: "string \<Rightarrow> string" where
  "lower s = map lower_char s"

definition digit_char :: "nat \<Rightarrow> char" where
  "digit_char d = char_of (48 + d mod 10)"

fun str_nat :: "nat \<Rightarrow> string" where
  "str_nat n = (if n < 10 then [digit_char n] else str_nat (n div 10) @ [digit_char n])"

definition str_int :: "int \<Rightarrow> string" where
  "str_int i = (if i < 0 then CHR ''-'' # str_nat (nat (- i)) else str_nat (nat i))"

text \<open>\<open>sep.join(parts)\<close>.\<close>

fun join :: "string \<Rightarrow> string list \<Rightarrow> string" where
  "join sep [] = []"
| "join sep [p] = p"
| "join sep (p # q # ps) = p @ sep @ join sep (q # ps)"

text \<open>Zero-padded decimal of fixed width, as \<open>isoformat()\<close> prints the parts of a date.\<close>

fun zfill :: "nat \<Rightarrow> nat \<Rightarrow> string" where
  "zfill 0 v = []"
| "zfill (Suc w) v = zfill w (v div 10) @ [digit_char v]"

text \<open>
  A \<open>datetime.date\<close> and an aware \<open>datetime.datetime\<close> in UTC (the project sets
  \<open>USE_TZ = True\<close> and \<open>TIME_ZONE = 'UTC'\<close>). \<open>date_less\<close> is \<open><\<close> on dates.
\<close>

datatype date = Date (year: nat) (month: nat) (day: nat)

datatype datetime =
  DateTime (on_date: date) (hour: nat) (minute: nat) (second: nat) (microsecond: nat)

definition date_less :: "date \<Rightarrow> date \<Rightarrow> bool" where
  "date_less a b =
     (year a < year b \<or>
      (year a = year b \<and> (month a < month b \<or> (month a = month b \<and> day a < day b))))"

definition date_isoformat :: "date \<Rightarrow> string" where
  "date_isoformat d = zfill 4 (year d) @ ''-'' @ zfill 2 (month d) @ ''-'' @ zfill 2 (day d)"

definition datetime_isoformat :: "datetime \<Rightarrow> string" where
  "datetime_isoformat t =
     date_isoformat (on_date t) @ ''T'' @ zfill 2 (hour t) @ '':'' @ zfill 2 (minute t) @
     '':'' @ zfill 2 (second t) @
     (if microsecond t = 0 then [] else ''.'' @ zfill 6 (microsecond t)) @ ''+00:00''"

text \<open>
  The values that \<open>json.dump\<close> and \<open>JsonResponse\<close> serialise. \<open>JDec m p\<close> is the
  number \<open>m / 10 ^ p\<close>.
\<close>

datatype json =
    JNull
  | JBool bool
  | JInt int
  | JDec int nat
  | JStr string
  | JList "json list"
  | JObj "(string \<times> json) list"

definition json_opt :: "string option \<Rightarrow> json" where
  "json_opt v = (case v of None \<Rightarrow> JNull | Some s \<Rightarrow> JStr s)"

section \<open>Slugs\<close>

text \<open>
  Modelled from the spec: \<open>slugify\<close> is imported from \<open>django.utils.text\<close> and is not
  part of the sources; the spec describes its result as the name "lowercase, hyphenated,
  non-alphanumeric stripped". The definition follows the framework's function (version
  5.0): characters outside ASCII are dropped, the text is lowercased, every character
  that is not a letter, a digit, an underscore, white space or a hyphen is removed, each
  run of white space and hyphens becomes one hyphen, and hyphens and underscores are
  stripped from both ends.
\<close>

definition is_ascii :: "char \<Rightarrow> bool" where
  "is_ascii c = ((of_char c :: nat) < 128)"

definition is_word :: "char \<Rightarrow> bool" where
  "is_word c =
     (let n = (of_char c :: nat)
      in (97 \<le> n \<and> n \<le> 122) \<or> (65 \<le> n \<and> n \<le> 90) \<or> (48 \<le> n \<and> n \<le> 57) \<or> n = 95)"

definition is_space :: "char \<Rightarrow> bool" where
  "is_space c = (let n = (of_char c :: nat) in (9 \<le> n \<and> n \<le> 13) \<or> (28 \<le> n \<and> n \<le> 32))"

definition is_sep :: "char \<Rightarrow> bool" where
  "is_sep c = (c = CHR ''-'' \<or> is_space c)"

function hyphenate :: "string \<Rightarrow> string" where
  "hyphenate [] = []"
| "hyphenate (c # cs) =
     (if is_sep c then CHR ''-'' # hyphenate (dropWhile is_sep cs) else c # hyphenate cs)"
  by pat_completeness auto
termination
  by (relation "measure length") (auto simp: length_dropWhile_le less_Suc_eq_le)

definition strip :: "(char \<Rightarrow> bool) \<Rightarrow> string \<Rightarrow> string" where
  "strip P s = rev (dropWhile P (rev (dropWhile P s)))"

definition slugify :: "string \<Rightarrow> string" where
  "slugify v =
     strip (\<lambda>c. c = CHR ''-'' \<or> c = CHR ''_'')
       (hyphenate (filter (\<lambda>c. is_word c \<or> is_space c \<or> c = CHR ''-'')
          (lower (filter is_ascii v))))"

text \<open>The characters of a slug: lower-case letters, digits, underscore and hyphen.\<close>

definition is_slug_char :: "char \<Rightarrow> bool" where
  "is_slug_char c =
     (let n = (of_char c :: nat)
      in (97 \<le> n \<and> n \<le> 122) \<or> (48 \<le> n \<and> n \<le> 57) \<or> n = 95 \<or> n = 45)"

section \<open>The models\<close>

text \<open>
  Each model is a record of the columns that some modelled function reads or writes; a
  foreign key is the primary key of the row it refers to. The columns left out (uploaded
  files, SEO text, many-to-many links, the \<open>created_at\<close> and \<open>updated_at\<close>
  timestamps) are carried by a save unchanged and are read nowhere below. A
  \<open>DecimalField\<close> with one decimal place holds its value in tenths.
\<close>

record Profile =
  name :: string
  job_title :: string
  bio :: string
  summary :: string
  email :: string
  phone :: string
  location :: string
  github_url :: "string option"
  linkedin_url :: "string option"
  twitter_url :: "string option"
  website_url :: "string option"
  is_active :: bool

record SkillArea =
  name :: string
  slug :: string
  description :: "string option"
  icon :: string
  color :: string
  order :: int

record Skill =
  area :: nat
  name :: string
  slug :: string
  sfia_level :: string
  industry_level :: string
  sector :: string
  description :: string
  years_experience :: "int option"
  is_featured :: bool
  order :: int

record Experience =
  role :: string
  company :: string
  location :: string
  start_date :: date
  end_date :: "date option"
  is_current :: bool
  situation :: string
  task :: string
  action :: string
  result :: string
  company_url :: "string option"

record ProjectCategory =
  name :: string
  slug :: string
  description :: "string option"

record Project =
  title :: string
  slug :: string
  category :: "nat option"
  start_date :: date
  end_date :: "date option"
  is_ongoing :: bool
  situation :: string
  task :: string
  action :: string
  result :: string
  technologies :: json
  github_url :: "string option"
  live_demo_url :: "string option"
  is_featured :: bool
  order :: int

record Certification =
  title :: string
  cert_type :: string
  issuing_authority :: string
  issue_date :: date
  expiry_date :: "date option"
  credential_id :: string
  credential_url :: "string option"
  icon_class :: string
  color_class :: string
  is_featured :: bool

record BlogSeries =
  name :: string
  slug :: string
  description :: string
  order :: int

record BlogCategory =
  name :: string
  slug :: string
  description :: "string option"

record BlogTag =
  name :: string
  slug :: string

record BlogPost =
  title :: string
  slug :: string
  series :: "nat option"
  category :: "nat option"
  excerpt :: string
  content :: string
  status :: string
  published_date :: "datetime option"
  reading_time :: int
  view_count :: int
  is_featured :: bool

record SiteSettings =
  site_title :: string
  site_tagline :: string
  site_description :: "string option"
  contact_email :: string
  contact_phone :: "string option"
  github_url :: "string option"
  linkedin_url :: "string option"
  twitter_url :: "string option"
  enable_blog :: bool
  enable_contact_form :: bool
  maintenance_mode :: bool
  is_active :: bool

record database =
  profiles :: "Profile table"
  skill_areas :: "SkillArea table"
  skills :: "Skill table"
  experiences :: "Experience table"
  project_categories :: "ProjectCategory table"
  projects :: "Project table"
  certifications :: "Certification table"
  blog_series :: "BlogSeries table"
  blog_categories :: "BlogCategory table"
  blog_tags :: "BlogTag table"
  blog_posts :: "BlogPost table"
  site_settings :: "SiteSettings table"

text \<open>Following a foreign key: the row must be there, \<open>None\<close> refers to nothing.\<close>

definition fk_ok :: "'r table \<Rightarrow> nat option \<Rightarrow> bool" where
  "fk_ok tbl ref = (case ref of None \<Rightarrow> True | Some k \<Rightarrow> map_of tbl k \<noteq> None)"

definition related :: "'r table \<Rightarrow> nat \<Rightarrow> py_error + 'r" where
  "related tbl k = (case map_of tbl k of None \<Rightarrow> Inl DoesNotExist | Some r \<Rightarrow> Inr r)"

section \<open>The save methods\<close>

text \<open>
  Every \<open>save\<close> takes the database and the instance and gives the new database and the
  saved instance, or the exception. Changes a method makes to the instance before it
  calls \<open>super().save()\<close> are visible in the saved instance.
\<close>

subsection \<open>Profile and SiteSettings: one active row\<close>

text \<open>\<open>Profile.save\<close>: if the instance is active, every active row is first set
  inactive; then the instance is written. \<open>Profile\<close> has no unique column.\<close>

definition Profile_save ::
  "database \<Rightarrow> Profile obj \<Rightarrow> py_error + (database \<times> (nat \<times> Profile))" where
  "Profile_save db self =
     (let tbl1 = (if Profile.is_active (snd self)
                  then qs_update Profile.is_active (\<lambda>r. r\<lparr>Profile.is_active := False\<rparr>)
                         (profiles db)
                  else profiles db)
      in case Model_save (\<lambda>_ _. False) tbl1 self of
           Inl e \<Rightarrow> Inl e
         | Inr (tbl', saved) \<Rightarrow> Inr (db\<lparr>profiles := tbl'\<rparr>, saved))"

text \<open>\<open>SiteSettings.save\<close>, the same pattern.\<close>

definition SiteSettings_save ::
  "database \<Rightarrow> SiteSettings obj \<Rightarrow> py_error + (database \<times> (nat \<times> SiteSettings))" where
  "SiteSettings_save db self =
     (let tbl1 = (if SiteSettings.is_active (snd self)
                  then qs_update SiteSettings.is_active
                         (\<lambda>r. r\<lparr>SiteSettings.is_active := False\<rparr>) (site_settings db)
                  else site_settings db)
      in case Model_save (\<lambda>_ _. False) tbl1 self of
           Inl e \<Rightarrow> Inl e
         | Inr (tbl', saved) \<Rightarrow> Inr (db\<lparr>site_settings := tbl'\<rparr>, saved))"

text \<open>A sequence of saves, one after the other; an exception ends it.\<close>

fun saves ::
  "(database \<Rightarrow> 'r obj \<Rightarrow> py_error + (database \<times> (nat \<times> 'r))) \<Rightarrow>
     database \<Rightarrow> 'r obj list \<Rightarrow> py_error + database" where
  "saves sv db [] = Inr db"
| "saves sv db (x # xs) =
     (case sv db x of Inl e \<Rightarrow> Inl e | Inr (db', _) \<Rightarrow> saves sv db' xs)"

text \<open>The number of rows with \<open>is_active\<close> set.\<close>

definition active_profiles :: "database \<Rightarrow> nat" where
  "active_profiles db = length (qs_filter Profile.is_active (profiles db))"

definition active_settings :: "database \<Rightarrow> nat" where
  "active_settings db = length (qs_filter SiteSettings.is_active (site_settings db))"

text \<open>
  \<open>SiteSettings.get_settings\<close>: \<open>get_or_create(is_active=True, defaults=...)\<close> returns
  the active row; when there is none it creates one from the lookup and the defaults,
  every other column at the default its field declares; more than one active row is
  \<open>MultipleObjectsReturned\<close>.
\<close>

definition default_settings :: SiteSettings where
  "default_settings =
     \<lparr>site_title = ''Portfolio'', site_tagline = [], site_description = None,
      contact_email = ''contact@example.com'', contact_phone = None,
      github_url = None, linkedin_url = None, twitter_url = None,
      enable_blog = True, enable_contact_form = True, maintenance_mode = False,
      is_active = True\<rparr>"

definition get_settings :: "database \<Rightarrow> py_error + (database \<times> (nat \<times> SiteSettings))" where
  "get_settings db =
     (case qs_get SiteSettings.is_active (site_settings db) of
        Inr found \<Rightarrow> Inr (db, found)
      | Inl DoesNotExist \<Rightarrow> SiteSettings_save db (None, default_settings)
      | Inl e \<Rightarrow> Inl e)"

subsection \<open>Slugs derived on save\<close>

text \<open>
  The \<open>unique=True\<close> and \<open>unique_together\<close> declarations of each model, as the clash
  that \<open>Model_save\<close> refuses.
\<close>

definition SkillArea_unique :: "SkillArea \<Rightarrow> SkillArea \<Rightarrow> bool" where
  "SkillArea_unique r r' =
     (SkillArea.name r = SkillArea.name r' \<or> SkillArea.slug r = SkillArea.slug r')"

definition Skill_unique :: "Skill \<Rightarrow> Skill \<Rightarrow> bool" where
  "Skill_unique r r' =
     (Skill.slug r = Skill.slug r' \<or> (Skill.area r = Skill.area r' \<and> Skill.name r = Skill.name r'))"

definition ProjectCategory_unique :: "ProjectCategory \<Rightarrow> ProjectCategory \<Rightarrow> bool" where
  "ProjectCategory_unique r r' =
     (ProjectCategory.name r = ProjectCategory.name r' \<or>
      ProjectCategory.slug r = ProjectCategory.slug r')"

definition Project_unique :: "Project \<Rightarrow> Project \<Rightarrow> bool" where
  "Project_unique r r' = (Project.slug r = Project.slug r')"

definition BlogSeries_unique :: "BlogSeries \<Rightarrow> BlogSeries \<Rightarrow> bool" where
  "BlogSeries_unique r r' = (BlogSeries.slug r = BlogSeries.slug r')"

definition BlogCategory_unique :: "BlogCategory \<Rightarrow> BlogCategory \<Rightarrow> bool" where
  "BlogCategory_unique r r' =
     (BlogCategory.name r = BlogCategory.name r' \<or> BlogCategory.slug r = BlogCategory.slug r')"

definition BlogTag_unique :: "BlogTag \<Rightarrow> BlogTag \<Rightarrow> bool" where
  "BlogTag_unique r r' = (BlogTag.name r = BlogTag.name r' \<or> BlogTag.slug r = BlogTag.slug r')"

definition BlogPost_unique :: "BlogPost \<Rightarrow> BlogPost \<Rightarrow> bool" where
  "BlogPost_unique r r' = (BlogPost.slug r = BlogPost.slug r')"

text \<open>\<open>SkillArea.save\<close>: \<open>if not self.slug: self.slug = slugify(self.name)\<close>, then the
  write.\<close>

definition SkillArea_save ::
  "database \<Rightarrow> SkillArea obj \<Rightarrow> py_error + (database \<times> (nat \<times> SkillArea))" where
  "SkillArea_save db self =
     (let r = snd self;
          r1 = (if SkillArea.slug r = [] then r\<lparr>SkillArea.slug := slugify (SkillArea.name r)\<rparr>
                else r)
      in case Model_save SkillArea_unique (skill_areas db) (fst self, r1) of
           Inl e \<Rightarrow> Inl e
         | Inr (tbl', saved) \<Rightarrow> Inr (db\<lparr>skill_areas := tbl'\<rparr>, saved))"

text \<open>
  \<open>Skill.save\<close>: the slug comes from \<open>f"{self.area.name}-{self.name}"\<close>; reading
  \<open>self.area\<close> fetches the area row and raises when it is missing. The write is refused
  when the area does not exist.
\<close>

definition Skill_save ::
  "database \<Rightarrow> Skill obj \<Rightarrow> py_error + (database \<times> (nat \<times> Skill))" where
  "Skill_save db self =
     (let r = snd self
      in case (if Skill.slug r = []
               then (case related (skill_areas db) (Skill.area r) of
                       Inl e \<Rightarrow> Inl e
                     | Inr a \<Rightarrow>
                         Inr (r\<lparr>Skill.slug := slugify (SkillArea.name a @ ''-'' @ Skill.name r)\<rparr>))
               else Inr r) of
           Inl e \<Rightarrow> Inl e
         | Inr r1 \<Rightarrow>
             if \<not> fk_ok (skill_areas db) (Some (Skill.area r1)) then Inl IntegrityError
             else (case Model_save Skill_unique (skills db) (fst self, r1) of
                     Inl e \<Rightarrow> Inl e
                   | Inr (tbl', saved) \<Rightarrow> Inr (db\<lparr>skills := tbl'\<rparr>, saved)))"

text \<open>\<open>ProjectCategory.save\<close>, \<open>BlogSeries.save\<close>, \<open>BlogCategory.save\<close> and
  \<open>BlogTag.save\<close>: the slug from the name.\<close>

definition ProjectCategory_save ::
  "database \<Rightarrow> ProjectCategory obj \<Rightarrow> py_error + (database \<times> (nat \<times> ProjectCategory))" where
  "ProjectCategory_save db self =
     (let r = snd self;
          r1 = (if ProjectCategory.slug r = []
                then r\<lparr>ProjectCategory.slug := slugify (ProjectCategory.name r)\<rparr> else r)
      in case Model_save ProjectCategory_unique (project_categories db) (fst self, r1) of
           Inl e \<Rightarrow> Inl e
         | Inr (tbl', saved) \<Rightarrow> Inr (db\<lparr>project_categories := tbl'\<rparr>, saved))"

definition BlogSeries_save ::
  "database \<Rightarrow> BlogSeries obj \<Rightarrow> py_error + (database \<times> (nat \<times> BlogSeries))" where
  "BlogSeries_save db self =
     (let r = snd self;
          r1 = (if BlogSeries.slug r = []
                then r\<lparr>BlogSeries.slug := slugify (BlogSeries.name r)\<rparr> else r)
      in case Model_save BlogSeries_unique (blog_series db) (fst self, r1) of
           Inl e \<Rightarrow> Inl e
         | Inr (tbl', saved) \<Rightarrow> Inr (db\<lparr>blog_series := tbl'\<rparr>, saved))"

definition BlogCategory_save ::
  "database \<Rightarrow> BlogCategory obj \<Rightarrow> py_error + (database \<times> (nat \<times> BlogCategory))" where
  "BlogCategory_save db self =
     (let r = snd self;
          r1 = (if BlogCategory.slug r = []
                then r\<lparr>BlogCategory.slug := slugify (BlogCategory.name r)\<rparr> else r)
      in case Model_save BlogCategory_unique (blog_categories db) (fst self, r1) of
           Inl e \<Rightarrow> Inl e
         | Inr (tbl', saved) \<Rightarrow> Inr (db\<lparr>blog_categories := tbl'\<rparr>, saved))"

definition BlogTag_save ::
  "database \<Rightarrow> BlogTag obj \<Rightarrow> py_error + (database \<times> (nat \<times> BlogTag))" where
  "BlogTag_save db self =
     (let r = snd self;
          r1 = (if BlogTag.slug r = []
                then r\<lparr>BlogTag.slug := slugify (BlogTag.name r)\<rparr> else r)
      in case Model_save BlogTag_unique (blog_tags db) (fst self, r1) of
           Inl e \<Rightarrow> Inl e
         | Inr (tbl', saved) \<Rightarrow> Inr (db\<lparr>blog_tags := tbl'\<rparr>, saved))"

text \<open>\<open>Project.save\<close>: the slug from the title; the category, when given, must exist.\<close>

definition Project_save ::
  "database \<Rightarrow> Project obj \<Rightarrow> py_error + (database \<times> (nat \<times> Project))" where
  "Project_save db self =
     (let r = snd self;
          r1 = (if Project.slug r = [] then r\<lparr>Project.slug := slugify (Project.title r)\<rparr>
                else r)
      in if \<not> fk_ok (project_categories db) (Project.category r1) then Inl IntegrityError
         else (case Model_save Project_unique (projects db) (fst self, r1) of
                 Inl e \<Rightarrow> Inl e
               | Inr (tbl', saved) \<Rightarrow> Inr (db\<lparr>projects := tbl'\<rparr>, saved)))"

subsection \<open>BlogPost\<close>

text \<open>
  \<open>save(update_fields=[...])\<close> of the framework writes only the named columns of an
  existing row: an empty list writes nothing, an unknown column name or an instance
  without primary key is a \<open>ValueError\<close>, and a row that is not there a
  \<open>DatabaseError\<close>. \<open>copy\<close> moves one named column from the instance into the row.
\<close>

definition Model_save_fields ::
  "('r \<Rightarrow> 'r \<Rightarrow> bool) \<Rightarrow> string list \<Rightarrow> (string \<Rightarrow> 'r \<Rightarrow> 'r \<Rightarrow> 'r) \<Rightarrow> string list \<Rightarrow>
     'r table \<Rightarrow> 'r obj \<Rightarrow> py_error + ('r table \<times> (nat \<times> 'r) option)" where
  "Model_save_fields clash columns copy update_fields tbl self =
     (if update_fields = [] then Inr (tbl, None)
      else if \<not> list_all (\<lambda>f. f \<in> set columns) update_fields then Inl ValueError
      else case fst self of
             None \<Rightarrow> Inl ValueError
           | Some k \<Rightarrow>
               (case map_of tbl k of
                  None \<Rightarrow> Inl DatabaseError
                | Some row \<Rightarrow>
                    (let row' = fold (\<lambda>f acc. copy f (snd self) acc) update_fields row
                     in if list_ex (\<lambda>(k', r'). k' \<noteq> k \<and> clash row' r') tbl
                        then Inl IntegrityError
                        else Inr (AList.update k row' tbl, Some (k, snd self)))))"

definition BlogPost_columns :: "string list" where
  "BlogPost_columns =
     [''title'', ''slug'', ''series'', ''category'', ''excerpt'', ''content'', ''status'',
      ''published_date'', ''reading_time'', ''view_count'', ''is_featured'']"

definition BlogPost_copy :: "string \<Rightarrow> BlogPost \<Rightarrow> BlogPost \<Rightarrow> BlogPost" where
  "BlogPost_copy f src dst =
     (if f = ''title'' then dst\<lparr>BlogPost.title := BlogPost.title src\<rparr>
      else if f = ''slug'' then dst\<lparr>BlogPost.slug := BlogPost.slug src\<rparr>
      else if f = ''series'' then dst\<lparr>BlogPost.series := BlogPost.series src\<rparr>
      else if f = ''category'' then dst\<lparr>BlogPost.category := BlogPost.category src\<rparr>
      else if f = ''excerpt'' then dst\<lparr>BlogPost.excerpt := BlogPost.excerpt src\<rparr>
      else if f = ''content'' then dst\<lparr>BlogPost.content := BlogPost.content src\<rparr>
      else if f = ''status'' then dst\<lparr>BlogPost.status := BlogPost.status src\<rparr>
      else if f = ''published_date''
        then dst\<lparr>BlogPost.published_date := BlogPost.published_date src\<rparr>
      else if f = ''reading_time'' then dst\<lparr>BlogPost.reading_time := BlogPost.reading_time src\<rparr>
      else if f = ''view_count'' then dst\<lparr>BlogPost.view_count := BlogPost.view_count src\<rparr>
      else if f = ''is_featured'' then dst\<lparr>BlogPost.is_featured := BlogPost.is_featured src\<rparr>
      else dst)"

text \<open>
  \<open>BlogPost.save\<close>: the slug from the title when it is empty, the publication date set
  to \<open>timezone.now()\<close> (the argument \<open>now\<close>) when the status is \<open>published\<close> and no date
  is set; then the write, of all columns or of \<open>update_fields\<close> only. The saved instance
  carries its primary key when the framework has set or kept one.
\<close>

definition BlogPost_save ::
  "database \<Rightarrow> datetime \<Rightarrow> string list option \<Rightarrow> BlogPost obj \<Rightarrow>
     py_error + (database \<times> BlogPost obj)" where
  "BlogPost_save db now update_fields self =
     (let r = snd self;
          r1 = (if BlogPost.slug r = [] then r\<lparr>BlogPost.slug := slugify (BlogPost.title r)\<rparr>
                else r);
          r2 = (if BlogPost.status r1 = ''published'' \<and> BlogPost.published_date r1 = None
                then r1\<lparr>BlogPost.published_date := Some now\<rparr> else r1)
      in case update_fields of
           None \<Rightarrow>
             if \<not> fk_ok (blog_series db) (BlogPost.series r2) \<or>
                \<not> fk_ok (blog_categories db) (BlogPost.category r2)
             then Inl IntegrityError
             else (case Model_save BlogPost_unique (blog_posts db) (fst self, r2) of
                     Inl e \<Rightarrow> Inl e
                   | Inr (tbl', (k, saved)) \<Rightarrow> Inr (db\<lparr>blog_posts := tbl'\<rparr>, (Some k, saved)))
         | Some fs \<Rightarrow>
             (case Model_save_fields BlogPost_unique BlogPost_columns BlogPost_copy fs
                     (blog_posts db) (fst self, r2) of
                Inl e \<Rightarrow> Inl e
              | Inr (tbl', _) \<Rightarrow> Inr (db\<lparr>blog_posts := tbl'\<rparr>, (fst self, r2))))"

text \<open>\<open>BlogPost.is_published\<close>.\<close>

definition is_published :: "BlogPost \<Rightarrow> bool" where
  "is_published p = (BlogPost.status p = ''published'' \<and> BlogPost.published_date p \<noteq> None)"

text \<open>
  What the database guarantees of the posts table: primary keys are distinct, and so are
  slugs (\<open>slug = models.SlugField(unique=True)\<close>).
\<close>

definition wf_posts :: "BlogPost table \<Rightarrow> bool" where
  "wf_posts tbl = (distinct (map fst tbl) \<and> distinct (map (\<lambda>(k, p). BlogPost.slug p) tbl))"

section \<open>Read-time properties\<close>

text \<open>
  \<open>Experience.duration\<close>. The module imports \<open>timezone\<close> from \<open>datetime\<close>, a class
  without \<open>now\<close>, and never imports \<open>relativedelta\<close>: reading either name raises.
  \<open>module_timezone_now\<close> and \<open>module_relativedelta\<close> are these two lookups in the
  module's namespace; a delta is the pair of its \<open>years\<close> and \<open>months\<close>.
\<close>

definition module_timezone_now :: "py_error + datetime" where
  "module_timezone_now =
     Inl (AttributeError ''now'')"

definition module_relativedelta :: "py_error + (date \<Rightarrow> date \<Rightarrow> int \<times> int)" where
  "module_relativedelta = Inl (NameError ''relativedelta'')"

text \<open>Lines 337 to 343: the parts for years and months, joined by a blank.\<close>

definition duration_text :: "int \<Rightarrow> int \<Rightarrow> string" where
  "duration_text years months =
     (let parts = [];
          parts = (if years > 0
                   then parts @ [str_int years @ '' yr'' @ (if years > 1 then ''s'' else [])]
                   else parts);
          parts = (if months > 0
                   then parts @ [str_int months @ '' mo'' @ (if months > 1 then ''s'' else [])]
                   else parts)
      in if parts \<noteq> [] then join '' '' parts else ''Less than 1 month'')"

definition duration :: "Experience \<Rightarrow> py_error + string" where
  "duration self =
     (case (case Experience.end_date self of
              Some e \<Rightarrow> Inr e
            | None \<Rightarrow> (case module_timezone_now of Inl e \<Rightarrow> Inl e | Inr t \<Rightarrow> Inr (on_date t))) of
        Inl e \<Rightarrow> Inl e
      | Inr end_day \<Rightarrow>
          (case module_relativedelta of
             Inl e \<Rightarrow> Inl e
           | Inr relativedelta \<Rightarrow>
               (let delta = relativedelta end_day (Experience.start_date self)
                in Inr (duration_text (fst delta) (snd delta)))))"

text \<open>\<open>Certification.is_expired\<close>; \<open>today\<close> is \<open>timezone.now().date()\<close>.\<close>

definition is_expired :: "Certification \<Rightarrow> date \<Rightarrow> bool" where
  "is_expired self today =
     (case Certification.expiry_date self of
        None \<Rightarrow> False
      | Some d \<Rightarrow> date_less d today)"

section \<open>The views\<close>

text \<open>
  \<open>DetailView.get_object\<close> of the framework, looking a row up by the slug of the URL in
  the view's queryset: no row is a 404.
\<close>

definition DetailView_get_object ::
  "'r table \<Rightarrow> ('r \<Rightarrow> string) \<Rightarrow> string \<Rightarrow> py_error + (nat \<times> 'r)" where
  "DetailView_get_object queryset slug_of s =
     (case qs_get (\<lambda>r. slug_of r = s) queryset of
        Inl DoesNotExist \<Rightarrow> Inl Http404
      | Inl e \<Rightarrow> Inl e
      | Inr found \<Rightarrow> Inr found)"

text \<open>\<open>BlogPostDetailView\<close>: the queryset is the published posts; \<open>get_object\<close>
  adds one to the view count of the post it found and saves that column.\<close>

definition BlogPostDetailView_get_queryset :: "database \<Rightarrow> BlogPost table" where
  "BlogPostDetailView_get_queryset db =
     qs_filter (\<lambda>p. BlogPost.status p = ''published'') (blog_posts db)"

definition BlogPostDetailView_get_object ::
  "database \<Rightarrow> datetime \<Rightarrow> string \<Rightarrow> py_error + (database \<times> BlogPost obj)" where
  "BlogPostDetailView_get_object db now s =
     (case DetailView_get_object (BlogPostDetailView_get_queryset db) BlogPost.slug s of
        Inl e \<Rightarrow> Inl e
      | Inr (k, obj) \<Rightarrow>
          BlogPost_save db now (Some [''view_count''])
            (Some k, obj\<lparr>BlogPost.view_count := BlogPost.view_count obj + 1\<rparr>))"

text \<open>The same post retrieved once at each of the given instants, in sequence.\<close>

fun retrieve_all :: "database \<Rightarrow> datetime list \<Rightarrow> string \<Rightarrow> py_error + database" where
  "retrieve_all db [] s = Inr db"
| "retrieve_all db (t # ts) s =
     (case BlogPostDetailView_get_object db t s of
        Inl e \<Rightarrow> Inl e
      | Inr (db', _) \<Rightarrow> retrieve_all db' ts s)"

text \<open>
  \<open>icontains\<close>: the text contains the search string, letters compared without case.
\<close>

fun starts_with :: "string \<Rightarrow> string \<Rightarrow> bool" where
  "starts_with s [] = True"
| "starts_with [] (p # ps) = False"
| "starts_with (c # cs) (p # ps) = (c = p \<and> starts_with cs ps)"

fun contains :: "string \<Rightarrow> string \<Rightarrow> bool" where
  "contains [] n = (n = [])"
| "contains (c # cs) n = (starts_with (c # cs) n \<or> contains cs n)"

definition icontains :: "string \<Rightarrow> string \<Rightarrow> bool" where
  "icontains str search = contains (lower str) (lower search)"

text \<open>
  \<open>ProjectsListView.get_queryset\<close>; the arguments are \<open>request.GET.get('category')\<close> and
  \<open>request.GET.get('q')\<close>. \<open>category__slug\<close> joins the project to its category. The
  queryset is modelled as the list of its rows; the order that \<open>Meta.ordering\<close> gives
  them and the pagination of the list view are not modelled.
\<close>

definition category__slug :: "database \<Rightarrow> string \<Rightarrow> Project \<Rightarrow> bool" where
  "category__slug db s p =
     (case Project.category p of
        None \<Rightarrow> False
      | Some c \<Rightarrow>
          (case map_of (project_categories db) c of
             None \<Rightarrow> False
           | Some cat \<Rightarrow> ProjectCategory.slug cat = s))"

definition ProjectsListView_get_queryset ::
  "database \<Rightarrow> string option \<Rightarrow> string option \<Rightarrow> Project table" where
  "ProjectsListView_get_queryset db category' search =
     (let qs = projects db;
          qs = (case category' of
                  Some c \<Rightarrow> if c \<noteq> [] then qs_filter (category__slug db c) qs else qs
                | None \<Rightarrow> qs);
          qs = (case search of
                  Some q \<Rightarrow>
                    if q \<noteq> []
                    then qs_filter (\<lambda>p. icontains (Project.title p) q \<or>
                                        icontains (Project.situation p) q \<or>
                                        icontains (Project.action p) q) qs
                    else qs
                | None \<Rightarrow> qs)
      in qs)"

text \<open>\<open>profile_json\<close>; \<open>JsonResponse(data)\<close> is a response of status 200.\<close>

record response =
  status_code :: nat
  body :: json

definition JsonResponse :: "json \<Rightarrow> response" where
  "JsonResponse data = \<lparr>status_code = 200, body = data\<rparr>"

definition profile_json :: "database \<Rightarrow> response" where
  "profile_json db =
     (case qs_first Profile.is_active (profiles db) of
        None \<Rightarrow> JsonResponse (JObj [])
      | Some (k, profile) \<Rightarrow>
          JsonResponse (JObj
            [(''name'', JStr (Profile.name profile)),
             (''title'', JStr (Profile.job_title profile)),
             (''bio'', JStr (Profile.bio profile)),
             (''summary'', JStr (Profile.summary profile)),
             (''email'', JStr (Profile.email profile)),
             (''social'', JObj
                [(''github'', json_opt (Profile.github_url profile)),
                 (''linkedin'', json_opt (Profile.linkedin_url profile)),
                 (''twitter'', json_opt (Profile.twitter_url profile))])]))"

section \<open>The export command\<close>

text \<open>
  The command writes one JSON file per collection into the data directory and reports on
  standard output. The state of a run is the database, the files of the data directory
  (name and the value that \<open>json.dump\<close> was given) and the lines written so far, each
  with the style it was printed in. The glyph that starts a message is left out of the
  message text. The rows of a collection are exported in table order.
\<close>

datatype out_line = Plain string | SUCCESS string | WARNING string

record export_state =
  ex_db :: database
  written :: "(string \<times> json) list"
  stdout :: "out_line list"

definition write_file :: "string \<Rightarrow> json \<Rightarrow> export_state \<Rightarrow> export_state" where
  "write_file path data st = st\<lparr>written := AList.update path data (written st)\<rparr>"

definition stdout_write :: "out_line \<Rightarrow> export_state \<Rightarrow> export_state" where
  "stdout_write msg st = st\<lparr>stdout := stdout st @ [msg]\<rparr>"

text \<open>A loop that builds \<open>data\<close> row by row; the first exception ends it.\<close>

fun collect :: "('a \<Rightarrow> py_error + 'b) \<Rightarrow> 'a list \<Rightarrow> py_error + 'b list" where
  "collect f [] = Inr []"
| "collect f (x # xs) =
     (case f x of
        Inl e \<Rightarrow> Inl e
      | Inr y \<Rightarrow> (case collect f xs of Inl e \<Rightarrow> Inl e | Inr ys \<Rightarrow> Inr (y # ys)))"

text \<open>\<open>obj.fk.name if obj.fk else None\<close> for a nullable foreign key.\<close>

definition related_name :: "'r table \<Rightarrow> ('r \<Rightarrow> string) \<Rightarrow> nat option \<Rightarrow> py_error + json" where
  "related_name tbl name_of ref =
     (case ref of
        None \<Rightarrow> Inr JNull
      | Some k \<Rightarrow> (case related tbl k of Inl e \<Rightarrow> Inl e | Inr r \<Rightarrow> Inr (JStr (name_of r))))"

definition json_date_opt :: "date option \<Rightarrow> json" where
  "json_date_opt d = (case d of None \<Rightarrow> JNull | Some x \<Rightarrow> JStr (date_isoformat x))"

definition export_profile :: "export_state \<Rightarrow> py_error + export_state" where
  "export_profile st =
     (case qs_get Profile.is_active (profiles (ex_db st)) of
        Inr (k, profile) \<Rightarrow>
          Inr (stdout_write (Plain ''Exported profile.json'')
                (write_file ''profile.json''
                   (JObj
                     [(''name'', JStr (Profile.name profile)),
                      (''title'', JStr (Profile.job_title profile)),
                      (''bio'', JStr (Profile.bio profile)),
                      (''summary'', JStr (Profile.summary profile)),
                      (''email'', JStr (Profile.email profile)),
                      (''phone'', JStr (Profile.phone profile)),
                      (''location'', JStr (Profile.location profile)),
                      (''social'', JObj
                         [(''github'', json_opt (Profile.github_url profile)),
                          (''linkedin'', json_opt (Profile.linkedin_url profile)),
                          (''twitter'', json_opt (Profile.twitter_url profile)),
                          (''website'', json_opt (Profile.website_url profile))])]) st))
      | Inl DoesNotExist \<Rightarrow> Inr (stdout_write (WARNING ''No profile found'') st)
      | Inl e \<Rightarrow> Inl e)"

text \<open>\<open>select_related('area')\<close> joins each skill to its area.\<close>

definition export_skills :: "export_state \<Rightarrow> py_error + export_state" where
  "export_skills st =
     (let data = List.map_filter
            (\<lambda>(k, skill).
               case map_of (skill_areas (ex_db st)) (Skill.area skill) of
                 None \<Rightarrow> None
               | Some a \<Rightarrow> Some (JObj
                   [(''area'', JStr (SkillArea.name a)),
                    (''name'', JStr (Skill.name skill)),
                    (''slug'', JStr (Skill.slug skill)),
                    (''sfia_level'', JStr (Skill.sfia_level skill)),
                    (''industry_level'', JStr (Skill.industry_level skill)),
                    (''sector'', JStr (Skill.sector skill)),
                    (''description'', JStr (Skill.description skill)),
                    (''years_experience'',
                       (case Skill.years_experience skill of
                          None \<Rightarrow> JNull
                        | Some y \<Rightarrow> if y \<noteq> 0 then JDec y 1 else JNull)),
                    (''is_featured'', JBool (Skill.is_featured skill))]))
            (skills (ex_db st))
      in Inr (stdout_write (Plain (''Exported '' @ str_nat (length data) @ '' skills''))
               (write_file ''skills.json'' (JList data) st)))"

definition export_projects :: "export_state \<Rightarrow> py_error + export_state" where
  "export_projects st =
     (case collect
        (\<lambda>(k, project).
           case related_name (project_categories (ex_db st)) ProjectCategory.name
                  (Project.category project) of
             Inl e \<Rightarrow> Inl e
           | Inr category_name \<Rightarrow> Inr (JObj
               [(''title'', JStr (Project.title project)),
                (''slug'', JStr (Project.slug project)),
                (''category'', category_name),
                (''start_date'', JStr (date_isoformat (Project.start_date project))),
                (''end_date'', json_date_opt (Project.end_date project)),
                (''is_ongoing'', JBool (Project.is_ongoing project)),
                (''star'', JObj
                   [(''situation'', JStr (Project.situation project)),
                    (''task'', JStr (Project.task project)),
                    (''action'', JStr (Project.action project)),
                    (''result'', JStr (Project.result project))]),
                (''technologies'', Project.technologies project),
                (''github_url'', json_opt (Project.github_url project)),
                (''live_demo_url'', json_opt (Project.live_demo_url project)),
                (''is_featured'', JBool (Project.is_featured project))]))
        (projects (ex_db st)) of
        Inl e \<Rightarrow> Inl e
      | Inr data \<Rightarrow>
          Inr (stdout_write (Plain (''Exported '' @ str_nat (length data) @ '' projects''))
                (write_file ''projects.json'' (JList data) st)))"

definition export_experience :: "export_state \<Rightarrow> py_error + export_state" where
  "export_experience st =
     (let data = map
            (\<lambda>(k, exp). JObj
               [(''role'', JStr (Experience.role exp)),
                (''company'', JStr (Experience.company exp)),
                (''location'', JStr (Experience.location exp)),
                (''start_date'', JStr (date_isoformat (Experience.start_date exp))),
                (''end_date'', json_date_opt (Experience.end_date exp)),
                (''is_current'', JBool (Experience.is_current exp)),
                (''star'', JObj
                   [(''situation'', JStr (Experience.situation exp)),
                    (''task'', JStr (Experience.task exp)),
                    (''action'', JStr (Experience.action exp)),
                    (''result'', JStr (Experience.result exp))]),
                (''company_url'', json_opt (Experience.company_url exp))])
            (experiences (ex_db st))
      in Inr (stdout_write (Plain (''Exported '' @ str_nat (length data) @ '' experiences''))
               (write_file ''experience.json'' (JList data) st)))"

definition export_certifications :: "export_state \<Rightarrow> py_error + export_state" where
  "export_certifications st =
     (let data = map
            (\<lambda>(k, cert). JObj
               [(''title'', JStr (Certification.title cert)),
                (''type'', JStr (Certification.cert_type cert)),
                (''issuing_authority'', JStr (Certification.issuing_authority cert)),
                (''issue_date'', JStr (date_isoformat (Certification.issue_date cert))),
                (''expiry_date'', json_date_opt (Certification.expiry_date cert)),
                (''credential_id'', JStr (Certification.credential_id cert)),
                (''credential_url'', json_opt (Certification.credential_url cert)),
                (''icon_class'', JStr (Certification.icon_class cert)),
                (''color_class'', JStr (Certification.color_class cert)),
                (''is_featured'', JBool (Certification.is_featured cert))])
            (certifications (ex_db st))
      in Inr (stdout_write (Plain (''Exported '' @ str_nat (length data) @ '' certifications''))
               (write_file ''certifications.json'' (JList data) st)))"

definition export_blog :: "export_state \<Rightarrow> py_error + export_state" where
  "export_blog st =
     (case collect
        (\<lambda>(k, post).
           case related_name (blog_series (ex_db st)) BlogSeries.name (BlogPost.series post) of
             Inl e \<Rightarrow> Inl e
           | Inr series_name \<Rightarrow>
               (case related_name (blog_categories (ex_db st)) BlogCategory.name
                       (BlogPost.category post) of
                  Inl e \<Rightarrow> Inl e
                | Inr category_name \<Rightarrow> Inr (JObj
                    [(''title'', JStr (BlogPost.title post)),
                     (''slug'', JStr (BlogPost.slug post)),
                     (''series'', series_name),
                     (''category'', category_name),
                     (''excerpt'', JStr (BlogPost.excerpt post)),
                     (''content'', JStr (BlogPost.content post)),
                     (''published_date'',
                        (case BlogPost.published_date post of
                           None \<Rightarrow> JNull
                         | Some t \<Rightarrow> JStr (datetime_isoformat t))),
                     (''reading_time'', JInt (BlogPost.reading_time post)),
                     (''is_featured'', JBool (BlogPost.is_featured post))])))
        (qs_filter (\<lambda>p. BlogPost.status p = ''published'') (blog_posts (ex_db st))) of
        Inl e \<Rightarrow> Inl e
      | Inr data \<Rightarrow>
          Inr (stdout_write (Plain (''Exported '' @ str_nat (length data) @ '' blog posts''))
                (write_file ''blog.json'' (JList data) st)))"

text \<open>\<open>export_site_settings\<close>: the settings come from \<open>get_settings\<close>; the bare
  \<open>except\<close> turns any exception into the warning.\<close>

definition export_site_settings :: "export_state \<Rightarrow> py_error + export_state" where
  "export_site_settings st =
     (case get_settings (ex_db st) of
        Inr (db', (k, settings)) \<Rightarrow>
          Inr (stdout_write (Plain ''Exported site.json'')
                (write_file ''site.json''
                   (JObj
                     [(''site_title'', JStr (SiteSettings.site_title settings)),
                      (''site_tagline'', JStr (SiteSettings.site_tagline settings)),
                      (''site_description'', json_opt (SiteSettings.site_description settings)),
                      (''contact_email'', JStr (SiteSettings.contact_email settings)),
                      (''contact_phone'', json_opt (SiteSettings.contact_phone settings)),
                      (''social'', JObj
                         [(''github'', json_opt (SiteSettings.github_url settings)),
                          (''linkedin'', json_opt (SiteSettings.linkedin_url settings)),
                          (''twitter'', json_opt (SiteSettings.twitter_url settings))]),
                      (''features'', JObj
                         [(''enable_blog'', JBool (SiteSettings.enable_blog settings)),
                          (''enable_contact_form'',
                             JBool (SiteSettings.enable_contact_form settings))])])
                   (st\<lparr>ex_db := db'\<rparr>)))
      | Inl e \<Rightarrow> Inr (stdout_write (WARNING ''No site settings found'') st))"

text \<open>\<open>Command.handle\<close>: the seven exports in order; an exception that an export lets
  through ends the run.\<close>

fun run_steps :: "('s \<Rightarrow> py_error + 's) list \<Rightarrow> 's \<Rightarrow> py_error + 's" where
  "run_steps [] st = Inr st"
| "run_steps (f # fs) st = (case f st of Inl e \<Rightarrow> Inl e | Inr st' \<Rightarrow> run_steps fs st')"

definition handle :: "database \<Rightarrow> (string \<times> json) list \<Rightarrow> py_error + export_state" where
  "handle db data_dir =
     (case run_steps
             [export_profile, export_skills, export_projects, export_experience,
              export_certifications, export_blog, export_site_settings]
             (stdout_write (Plain ''Exporting portfolio data to JSON...'')
                \<lparr>ex_db = db, written = data_dir, stdout = []\<rparr>) of
        Inl e \<Rightarrow> Inl e
      | Inr st \<Rightarrow> Inr (stdout_write (SUCCESS ''Export completed!'') st))"

section \<open>Sample data\<close>

text \<open>Concrete rows and databases on which the theorems below are instantiated.\<close>

definition empty_db :: database where
  "empty_db =
     \<lparr>profiles = [], skill_areas = [], skills = [], experiences = [], project_categories = [],
      projects = [], certifications = [], blog_series = [], blog_categories = [],
      blog_tags = [], blog_posts = [], site_settings = []\<rparr>"

definition demo_profile :: "string \<Rightarrow> bool \<Rightarrow> Profile" where
  "demo_profile n a =
     \<lparr>Profile.name = n, job_title = ''Engineer'', bio = ''Bio'', summary = ''Summary'',
      email = ''me@example.com'', phone = [], location = ''Hanoi'',
      github_url = Some ''https://github.com/me'', linkedin_url = None, twitter_url = None,
      website_url = None, is_active = a\<rparr>"

definition demo_settings :: "string \<Rightarrow> bool \<Rightarrow> SiteSettings" where
  "demo_settings t a =
     \<lparr>site_title = t, site_tagline = [], site_description = None,
      contact_email = ''me@example.com'', contact_phone = None,
      github_url = None, linkedin_url = None, twitter_url = None,
      enable_blog = True, enable_contact_form = True, maintenance_mode = False,
      is_active = a\<rparr>"

definition two_singletons_db :: database where
  "two_singletons_db =
     empty_db\<lparr>profiles := [(1, demo_profile ''Ann'' True), (2, demo_profile ''Bob'' False)],
              site_settings := [(1, demo_settings ''Site'' True), (4, demo_settings ''Old'' False)]\<rparr>"

definition demo_cert :: "date option \<Rightarrow> Certification" where
  "demo_cert e =
     \<lparr>Certification.title = ''Cloud Practitioner'', cert_type = ''certification'',
      issuing_authority = ''AWS'', issue_date = Date 2022 6 1, expiry_date = e,
      credential_id = ''ABC-123'', credential_url = None, icon_class = [],
      color_class = ''bg-blue-500'', is_featured = False\<rparr>"

definition demo_post :: "string \<Rightarrow> string \<Rightarrow> string \<Rightarrow> datetime option \<Rightarrow> int \<Rightarrow> BlogPost" where
  "demo_post t s st d v =
     \<lparr>BlogPost.title = t, slug = s, series = None, category = None, excerpt = ''Excerpt'',
      content = ''Content'', status = st, published_date = d, reading_time = 5,
      view_count = v, is_featured = False\<rparr>"


definition noon :: datetime where
  "noon = DateTime (Date 2024 3 1) 12 0 0 0"

definition evening :: datetime where
  "evening = DateTime (Date 2024 3 1) 18 30 0 0"


definition demo_area :: "string \<Rightarrow> string \<Rightarrow> SkillArea" where
  "demo_area n s =
     \<lparr>SkillArea.name = n, slug = s, description = None, icon = ''fas fa-code'',
      color = ''bg-blue-500'', order = 0\<rparr>"

definition demo_skill :: "nat \<Rightarrow> string \<Rightarrow> string \<Rightarrow> Skill" where
  "demo_skill a n s =
     \<lparr>Skill.area = a, name = n, slug = s, sfia_level = ''L3'', industry_level = ''practitioner'',
      sector = ''other'', description = ''Daily use'', years_experience = Some 35,
      is_featured = False, order = 0\<rparr>"

definition demo_category :: "string \<Rightarrow> string \<Rightarrow> ProjectCategory" where
  "demo_category n s = \<lparr>ProjectCategory.name = n, slug = s, description = None\<rparr>"

definition demo_project :: "string \<Rightarrow> string \<Rightarrow> nat option \<Rightarrow> string \<Rightarrow> string \<Rightarrow> Project" where
  "demo_project t s c sit act =
     \<lparr>Project.title = t, slug = s, category = c, start_date = Date 2023 1 10, end_date = None,
      is_ongoing = True, situation = sit, task = ''Task'', action = act, result = ''Result'',
      technologies = JList [JStr ''Python''], github_url = None, live_demo_url = None,
      is_featured = False, order = 0\<rparr>"

definition demo_series :: "string \<Rightarrow> string \<Rightarrow> BlogSeries" where
  "demo_series n s = \<lparr>BlogSeries.name = n, slug = s, description = ''About'', order = 0\<rparr>"

definition demo_blog_category :: "string \<Rightarrow> string \<Rightarrow> BlogCategory" where
  "demo_blog_category n s = \<lparr>BlogCategory.name = n, slug = s, description = None\<rparr>"

definition demo_tag :: "string \<Rightarrow> string \<Rightarrow> BlogTag" where
  "demo_tag n s = \<lparr>BlogTag.name = n, slug = s\<rparr>"

definition backend_db :: database where
  "backend_db = empty_db\<lparr>skill_areas := [(1, demo_area ''Backend'' ''backend'')]\<rparr>"

definition demo_experience :: "date \<Rightarrow> date option \<Rightarrow> bool \<Rightarrow> Experience" where
  "demo_experience s e cur =
     \<lparr>Experience.role = ''Developer'', company = ''Acme'', location = ''Remote'',
      start_date = s, end_date = e, is_current = cur, situation = ''Situation'',
      task = ''Task'', action = ''Action'', result = ''Result'', company_url = None\<rparr>"

definition portfolio_db :: database where
  "portfolio_db =
     backend_db
       \<lparr>project_categories := [(1, demo_category ''Web Apps'' ''web-apps'')],
        projects :=
          [(1, demo_project ''Django Shop'' ''django-shop'' (Some 1) ''Orders by phone'' ''Built a shop''),
           (2, demo_project ''Team Blog'' ''team-blog'' None ''Needed a DJANGO site'' ''Wrote it''),
           (3, demo_project ''CLI Tool'' ''cli-tool'' (Some 1) ''Slow scripts'' ''Rewrote in Rust'')]\<rparr>"

definition two_posts_db :: database where
  "two_posts_db =
     empty_db\<lparr>blog_posts := [(1, demo_post ''Hello'' ''hello'' ''published'' (Some noon) 0),
                             (2, demo_post ''Notes'' ''notes'' ''draft'' None 7)]\<rparr>"

definition two_active_db :: database where
  "two_active_db =
     empty_db\<lparr>site_settings := [(1, demo_settings ''Site'' True), (2, demo_settings ''Site'' True)]\<rparr>"

section \<open>Properties of the ORM operations\<close>

lemma qs_update_keys: "map fst (qs_update P f tbl) = map fst tbl"
  by (induction tbl) (auto simp: qs_update_def)

lemma qs_update_map_of:
  "map_of (qs_update P f tbl) k = map_option (\<lambda>r. if P r then f r else r) (map_of tbl k)"
  by (induction tbl) (auto simp: qs_update_def)

lemma qs_update_clears:
  "(\<And>r. \<not> P (f r)) \<Longrightarrow> (k, r) \<in> set (qs_update P f tbl) \<Longrightarrow> \<not> P r"
  by (induction tbl) (auto simp: qs_update_def split: if_splits)

lemma update_count:
  "distinct (map fst tbl) \<Longrightarrow> \<forall>(k', r') \<in> set tbl. \<not> P r' \<Longrightarrow> P r \<Longrightarrow>
     length (filter (\<lambda>(k', r'). P r') (AList.update k r tbl)) = 1"
proof (induction tbl)
  case Nil
  then show ?case by simp
next
  case (Cons a tbl)
  obtain k0 r0 where a: "a = (k0, r0)" by (cases a)
  have none: "filter (\<lambda>(k', r'). P r') tbl = []"
    using Cons.prems(2) by (auto simp: filter_empty_conv)
  show ?case
  proof (cases "k0 = k")
    case True
    then show ?thesis using a none Cons.prems(3) by simp
  next
    case False
    have "length (filter (\<lambda>(k', r'). P r') (AList.update k r tbl)) = 1"
      using Cons by simp
    moreover have "\<not> P r0" using Cons.prems(2) a by simp
    ultimately show ?thesis using a False by simp
  qed
qed

lemma Model_save_free:
  "Model_save (\<lambda>_ _. False) tbl self =
     Inr (AList.update (case fst self of Some k \<Rightarrow> k | None \<Rightarrow> fresh_pk tbl) (snd self) tbl,
          (case fst self of Some k \<Rightarrow> k | None \<Rightarrow> fresh_pk tbl, snd self))"
  by (simp add: Model_save_def Let_def list_ex_iff)

lemma Model_save_stored:
  "Model_save clash tbl self = Inr (tbl', (k, r)) \<Longrightarrow> map_of tbl' k = Some r \<and> r = snd self"
  by (auto simp: Model_save_def Let_def update_conv' split: if_splits)

lemma fold_max_ge: "m \<le> fold max xs (m::nat)"
  by (induction xs arbitrary: m) (auto intro: order_trans [OF max.cobounded2])

lemma fold_max_mem: "x \<in> set xs \<Longrightarrow> x \<le> fold max xs (m::nat)"
proof (induction xs arbitrary: m)
  case Nil
  then show ?case by simp
next
  case (Cons a xs)
  show ?case
  proof (cases "x = a")
    case True
    have "a \<le> max a m" by simp
    also have "\<dots> \<le> fold max xs (max a m)" by (rule fold_max_ge)
    finally show ?thesis using True by simp
  next
    case False
    then show ?thesis using Cons by simp
  qed
qed

lemma fresh_pk_fresh: "fresh_pk tbl \<notin> fst ` set tbl"
proof
  assume "fresh_pk tbl \<in> fst ` set tbl"
  then have "fresh_pk tbl \<in> set (map fst tbl)" by simp
  then have "fresh_pk tbl \<le> fold max (map fst tbl) 0" by (rule fold_max_mem)
  then show False by (simp add: fresh_pk_def)
qed

lemma update_fresh: "k \<notin> fst ` set tbl \<Longrightarrow> AList.update k r tbl = tbl @ [(k, r)]"
  by (induction tbl) auto

lemma qs_update_none: "qs_filter P tbl = [] \<Longrightarrow> qs_update P f tbl = tbl"
  by (induction tbl) (auto simp: qs_update_def qs_filter_def split: if_splits)

lemma qs_get_one:
  "length (qs_filter P tbl) = 1 \<Longrightarrow> \<exists>k r. qs_get P tbl = Inr (k, r) \<and> (k, r) \<in> set tbl \<and> P r"
proof -
  assume "length (qs_filter P tbl) = 1"
  then obtain x where x: "qs_filter P tbl = [x]"
    by (cases "qs_filter P tbl") auto
  then have "x \<in> set (qs_filter P tbl)" by simp
  then have "x \<in> set tbl \<and> P (snd x)" by (auto simp: qs_filter_def)
  then show ?thesis using x by (cases x) (auto simp: qs_get_def)
qed

lemma update_count_le:
  "length (filter (\<lambda>(k', r'). P r') (AList.update k r tbl)) \<le>
     length (filter (\<lambda>(k', r'). P r') tbl) + (if P r then 1 else 0)"
  by (induction tbl) auto

lemma fold_least:
  "fold (\<lambda>y m. if fst y < fst m then y else m) xs (x :: nat \<times> 'r) \<in> set (x # xs) \<and>
   (\<forall>y \<in> set (x # xs). fst (fold (\<lambda>y m. if fst y < fst m then y else m) xs x) \<le> fst y)"
proof (induction xs arbitrary: x)
  case Nil
  then show ?case by simp
next
  case (Cons a xs)
  let ?x' = "if fst a < fst x then a else x"
  have ih: "fold (\<lambda>y m. if fst y < fst m then y else m) xs ?x' \<in> set (?x' # xs) \<and>
      (\<forall>y \<in> set (?x' # xs). fst (fold (\<lambda>y m. if fst y < fst m then y else m) xs ?x') \<le> fst y)"
    by (rule Cons.IH)
  have le: "fst ?x' \<le> fst a" "fst ?x' \<le> fst x" by auto
  from ih have "fst (fold (\<lambda>y m. if fst y < fst m then y else m) xs ?x') \<le> fst ?x'" by simp
  with le have "fst (fold (\<lambda>y m. if fst y < fst m then y else m) xs ?x') \<le> fst a"
    "fst (fold (\<lambda>y m. if fst y < fst m then y else m) xs ?x') \<le> fst x"
    by linarith+
  with ih show ?case by (auto split: if_splits)
qed

lemma qs_first_Some:
  assumes "qs_filter P tbl \<noteq> []"
  shows "\<exists>k r. qs_first P tbl = Some (k, r) \<and> (k, r) \<in> set tbl \<and> P r \<and>
           (\<forall>(k', r') \<in> set tbl. P r' \<longrightarrow> k \<le> k')"
proof -
  obtain x xs where f: "qs_filter P tbl = x # xs"
    using assms by (cases "qs_filter P tbl") auto
  define m where "m = fold (\<lambda>y m. if fst y < fst m then y else m) xs x"
  have q: "qs_first P tbl = Some m"
    by (simp add: qs_first_def f m_def)
  have mem: "m \<in> set (qs_filter P tbl)" and least: "\<forall>y \<in> set (qs_filter P tbl). fst m \<le> fst y"
    using fold_least [of xs x] by (simp_all add: f m_def)
  have in_tbl: "m \<in> set tbl" "P (snd m)"
    using mem by (auto simp: qs_filter_def)
  have "\<forall>(k', r') \<in> set tbl. P r' \<longrightarrow> fst m \<le> k'"
  proof (clarify)
    fix k' r' assume "(k', r') \<in> set tbl" "P r'"
    then have "(k', r') \<in> set (qs_filter P tbl)" by (simp add: qs_filter_def)
    with least show "fst m \<le> k'" by fastforce
  qed
  then show ?thesis using q in_tbl by (cases m) auto
qed

section \<open>One active row (C1)\<close>

lemma Profile_save_active:
  assumes d: "distinct (map fst (profiles db))" and a: "Profile.is_active (snd self)"
  shows "\<exists>db' k. Profile_save db self = Inr (db', (k, snd self)) \<and>
           distinct (map fst (profiles db')) \<and> active_profiles db' = 1 \<and>
           map_of (profiles db') k = Some (snd self) \<and>
           (\<forall>k'. k' \<noteq> k \<longrightarrow>
              map_of (profiles db') k' =
                map_option (\<lambda>r. r\<lparr>Profile.is_active := False\<rparr>) (map_of (profiles db) k'))"
proof -
  define tbl1 where
    "tbl1 = qs_update Profile.is_active (\<lambda>r. r\<lparr>Profile.is_active := False\<rparr>) (profiles db)"
  define k where "k = (case fst self of Some k \<Rightarrow> k | None \<Rightarrow> fresh_pk tbl1)"
  define tbl' where "tbl' = AList.update k (snd self) tbl1"
  have sv: "Profile_save db self = Inr (db\<lparr>profiles := tbl'\<rparr>, (k, snd self))"
    unfolding tbl'_def k_def tbl1_def using a
    by (simp add: Profile_save_def Model_save_free Let_def)
  have d1: "distinct (map fst tbl1)"
    using d by (simp add: tbl1_def qs_update_keys)
  have off: "\<forall>(k', r') \<in> set tbl1. \<not> Profile.is_active r'"
    unfolding tbl1_def by (auto dest: qs_update_clears [rotated])
  have cnt: "length (filter (\<lambda>(k', r'). Profile.is_active r') tbl') = 1"
    unfolding tbl'_def using d1 off a by (rule update_count)
  have d': "distinct (map fst tbl')"
    using d1 by (simp add: tbl'_def distinct_update)
  have row: "map_of tbl' k = Some (snd self)"
    by (simp add: tbl'_def update_conv')
  have others: "map_of tbl' k' =
      map_option (\<lambda>r. r\<lparr>Profile.is_active := False\<rparr>) (map_of (profiles db) k')"
    if "k' \<noteq> k" for k'
  proof -
    have "map_of tbl' k' = map_of tbl1 k'"
      using that by (simp add: tbl'_def update_conv')
    also have "\<dots> = map_option
        (\<lambda>r. if Profile.is_active r then r\<lparr>Profile.is_active := False\<rparr> else r)
        (map_of (profiles db) k')"
      by (simp add: tbl1_def qs_update_map_of)
    also have "\<dots> = map_option (\<lambda>r. r\<lparr>Profile.is_active := False\<rparr>) (map_of (profiles db) k')"
      by (cases "map_of (profiles db) k'") simp_all
    finally show ?thesis .
  qed
  show ?thesis
    using sv d' cnt row others by (simp add: active_profiles_def qs_filter_def)
qed

lemma SiteSettings_save_active:
  assumes d: "distinct (map fst (site_settings db))" and a: "SiteSettings.is_active (snd self)"
  shows "\<exists>db' k. SiteSettings_save db self = Inr (db', (k, snd self)) \<and>
           distinct (map fst (site_settings db')) \<and> active_settings db' = 1 \<and>
           map_of (site_settings db') k = Some (snd self) \<and>
           (\<forall>k'. k' \<noteq> k \<longrightarrow>
              map_of (site_settings db') k' =
                map_option (\<lambda>r. r\<lparr>SiteSettings.is_active := False\<rparr>)
                  (map_of (site_settings db) k'))"
proof -
  define tbl1 where
    "tbl1 = qs_update SiteSettings.is_active (\<lambda>r. r\<lparr>SiteSettings.is_active := False\<rparr>)
              (site_settings db)"
  define k where "k = (case fst self of Some k \<Rightarrow> k | None \<Rightarrow> fresh_pk tbl1)"
  define tbl' where "tbl' = AList.update k (snd self) tbl1"
  have sv: "SiteSettings_save db self = Inr (db\<lparr>site_settings := tbl'\<rparr>, (k, snd self))"
    unfolding tbl'_def k_def tbl1_def using a
    by (simp add: SiteSettings_save_def Model_save_free Let_def)
  have d1: "distinct (map fst tbl1)"
    using d by (simp add: tbl1_def qs_update_keys)
  have off: "\<forall>(k', r') \<in> set tbl1. \<not> SiteSettings.is_active r'"
    unfolding tbl1_def by (auto dest: qs_update_clears [rotated])
  have cnt: "length (filter (\<lambda>(k', r'). SiteSettings.is_active r') tbl') = 1"
    unfolding tbl'_def using d1 off a by (rule update_count)
  have d': "distinct (map fst tbl')"
    using d1 by (simp add: tbl'_def distinct_update)
  have row: "map_of tbl' k = Some (snd self)"
    by (simp add: tbl'_def update_conv')
  have others: "map_of tbl' k' =
      map_option (\<lambda>r. r\<lparr>SiteSettings.is_active := False\<rparr>) (map_of (site_settings db) k')"
    if "k' \<noteq> k" for k'
  proof -
    have "map_of tbl' k' = map_of tbl1 k'"
      using that by (simp add: tbl'_def update_conv')
    also have "\<dots> = map_option
        (\<lambda>r. if SiteSettings.is_active r then r\<lparr>SiteSettings.is_active := False\<rparr> else r)
        (map_of (site_settings db) k')"
      by (simp add: tbl1_def qs_update_map_of)
    also have "\<dots> = map_option (\<lambda>r. r\<lparr>SiteSettings.is_active := False\<rparr>)
        (map_of (site_settings db) k')"
      by (cases "map_of (site_settings db) k'") simp_all
    finally show ?thesis .
  qed
  show ?thesis
    using sv d' cnt row others by (simp add: active_settings_def qs_filter_def)
qed

lemma saves_singleton:
  assumes step: "\<And>db self. ok db \<Longrightarrow> act (snd self) \<Longrightarrow>
            \<exists>db' kr. sv db self = Inr (db', kr) \<and> ok db' \<and> cnt db' = (1::nat)"
  shows "ok db \<Longrightarrow> xs \<noteq> [] \<Longrightarrow> \<forall>x \<in> set xs. act (snd x) \<Longrightarrow>
           \<exists>db'. saves sv db xs = Inr db' \<and> ok db' \<and> cnt db' = 1"
proof (induction xs arbitrary: db)
  case Nil
  then show ?case by simp
next
  case (Cons x xs)
  from step [OF Cons.prems(1), of x] Cons.prems(3)
  obtain db1 kr where s1: "sv db x = Inr (db1, kr)" and d1: "ok db1"
    and c1: "cnt db1 = 1" by auto
  show ?case
  proof (cases "xs = []")
    case True
    then show ?thesis using s1 d1 c1 by simp
  next
    case False
    from Cons.IH [OF d1 False] Cons.prems(3)
    obtain db' where "saves sv db1 xs = Inr db'" "ok db'" "cnt db' = 1"
      by auto
    then show ?thesis using s1 by simp
  qed
qed

lemma Profile_saves_singleton:
  assumes "distinct (map fst (profiles db))" "xs \<noteq> []" "\<forall>x \<in> set xs. Profile.is_active (snd x)"
  shows "\<exists>db'. saves Profile_save db xs = Inr db' \<and> active_profiles db' = 1"
proof -
  have "\<exists>db'. saves Profile_save db xs = Inr db' \<and> distinct (map fst (profiles db')) \<and>
          active_profiles db' = 1"
  proof (rule saves_singleton [where act = Profile.is_active
          and ok = "\<lambda>db. distinct (map fst (profiles db))"])
    fix db :: database and self :: "Profile obj"
    assume "distinct (map fst (profiles db))" "Profile.is_active (snd self)"
    from Profile_save_active [OF this]
    show "\<exists>db' kr. Profile_save db self = Inr (db', kr) \<and> distinct (map fst (profiles db')) \<and>
            active_profiles db' = 1"
      by blast
  qed (use assms in auto)
  then show ?thesis by blast
qed

lemma SiteSettings_saves_singleton:
  assumes "distinct (map fst (site_settings db))" "xs \<noteq> []"
    "\<forall>x \<in> set xs. SiteSettings.is_active (snd x)"
  shows "\<exists>db'. saves SiteSettings_save db xs = Inr db' \<and> active_settings db' = 1"
proof -
  have "\<exists>db'. saves SiteSettings_save db xs = Inr db' \<and>
          distinct (map fst (site_settings db')) \<and> active_settings db' = 1"
  proof (rule saves_singleton [where act = SiteSettings.is_active
          and ok = "\<lambda>db. distinct (map fst (site_settings db))"])
    fix db :: database and self :: "SiteSettings obj"
    assume "distinct (map fst (site_settings db))" "SiteSettings.is_active (snd self)"
    from SiteSettings_save_active [OF this]
    show "\<exists>db' kr. SiteSettings_save db self = Inr (db', kr) \<and>
            distinct (map fst (site_settings db')) \<and> active_settings db' = 1"
      by blast
  qed (use assms in auto)
  then show ?thesis by blast
qed

text \<open>
  C1. On tables whose primary keys are distinct, every non-empty sequence of saves of
  \<open>Profile\<close> instances (or of \<open>SiteSettings\<close> instances) that all have
  \<open>is_active\<close> set runs without an exception and leaves exactly one active row of
  that type, whatever the instances, their order and their number. One such save writes
  the instance and leaves every other row as it was except that \<open>is_active\<close> is now
  false.
\<close>

theorem C1_one_active_row:
  assumes "distinct (map fst (profiles db))" and "ps \<noteq> []"
    and "\<forall>x \<in> set ps. Profile.is_active (snd x)" and "Profile.is_active (snd p)"
    and "distinct (map fst (site_settings db))" and "ss \<noteq> []"
    and "\<forall>x \<in> set ss. SiteSettings.is_active (snd x)" and "SiteSettings.is_active (snd s)"
  shows "(\<exists>db'. saves Profile_save db ps = Inr db' \<and> active_profiles db' = 1) \<and>
         (\<exists>db'. saves SiteSettings_save db ss = Inr db' \<and> active_settings db' = 1) \<and>
         (\<exists>db' k. Profile_save db p = Inr (db', (k, snd p)) \<and>
            map_of (profiles db') =
              (\<lambda>k'. map_option (\<lambda>r. r\<lparr>Profile.is_active := False\<rparr>) (map_of (profiles db) k'))
                (k \<mapsto> snd p)) \<and>
         (\<exists>db' k. SiteSettings_save db s = Inr (db', (k, snd s)) \<and>
            map_of (site_settings db') =
              (\<lambda>k'. map_option (\<lambda>r. r\<lparr>SiteSettings.is_active := False\<rparr>)
                      (map_of (site_settings db) k'))
                (k \<mapsto> snd s))"
proof -
  have a: "\<exists>db'. saves Profile_save db ps = Inr db' \<and> active_profiles db' = 1"
    using assms(1-3) by (rule Profile_saves_singleton)
  have b: "\<exists>db'. saves SiteSettings_save db ss = Inr db' \<and> active_settings db' = 1"
    using assms(5-7) by (rule SiteSettings_saves_singleton)
  from Profile_save_active [OF assms(1) assms(4)]
  obtain db1 k1 where p1: "Profile_save db p = Inr (db1, (k1, snd p))"
    and p2: "map_of (profiles db1) k1 = Some (snd p)"
    and p3: "\<forall>k'. k' \<noteq> k1 \<longrightarrow> map_of (profiles db1) k' =
               map_option (\<lambda>r. r\<lparr>Profile.is_active := False\<rparr>) (map_of (profiles db) k')"
    by blast
  have "map_of (profiles db1) =
          (\<lambda>k'. map_option (\<lambda>r. r\<lparr>Profile.is_active := False\<rparr>) (map_of (profiles db) k'))
            (k1 \<mapsto> snd p)"
    using p2 p3 by (intro ext) simp
  with p1 have c: "\<exists>db' k. Profile_save db p = Inr (db', (k, snd p)) \<and>
            map_of (profiles db') =
              (\<lambda>k'. map_option (\<lambda>r. r\<lparr>Profile.is_active := False\<rparr>) (map_of (profiles db) k'))
                (k \<mapsto> snd p)"
    by blast
  from SiteSettings_save_active [OF assms(5) assms(8)]
  obtain db2 k2 where s1: "SiteSettings_save db s = Inr (db2, (k2, snd s))"
    and s2: "map_of (site_settings db2) k2 = Some (snd s)"
    and s3: "\<forall>k'. k' \<noteq> k2 \<longrightarrow> map_of (site_settings db2) k' =
               map_option (\<lambda>r. r\<lparr>SiteSettings.is_active := False\<rparr>)
                 (map_of (site_settings db) k')"
    by blast
  have "map_of (site_settings db2) =
          (\<lambda>k'. map_option (\<lambda>r. r\<lparr>SiteSettings.is_active := False\<rparr>)
                  (map_of (site_settings db) k'))
            (k2 \<mapsto> snd s)"
    using s2 s3 by (intro ext) simp
  with s1 have d: "\<exists>db' k. SiteSettings_save db s = Inr (db', (k, snd s)) \<and>
            map_of (site_settings db') =
              (\<lambda>k'. map_option (\<lambda>r. r\<lparr>SiteSettings.is_active := False\<rparr>)
                      (map_of (site_settings db) k'))
                (k \<mapsto> snd s)"
    by blast
  show ?thesis using a b c d by blast
qed

theorem C1_one_active_row_witness:
  "(\<exists>db'. saves Profile_save two_singletons_db
            [(None, demo_profile ''Cai'' True), (Some 2, demo_profile ''Bob'' True)] = Inr db' \<and>
          active_profiles db' = 1) \<and>
   (\<exists>db'. saves SiteSettings_save two_singletons_db
            [(Some 4, demo_settings ''Old'' True), (None, demo_settings ''New'' True)] = Inr db' \<and>
          active_settings db' = 1) \<and>
   (\<exists>db' k. Profile_save two_singletons_db (Some 2, demo_profile ''Bob'' True) =
              Inr (db', (k, demo_profile ''Bob'' True)) \<and>
      map_of (profiles db') =
        (\<lambda>k'. map_option (\<lambda>r. r\<lparr>Profile.is_active := False\<rparr>)
                (map_of (profiles two_singletons_db) k'))
          (k \<mapsto> demo_profile ''Bob'' True)) \<and>
   (\<exists>db' k. SiteSettings_save two_singletons_db (None, demo_settings ''New'' True) =
              Inr (db', (k, demo_settings ''New'' True)) \<and>
      map_of (site_settings db') =
        (\<lambda>k'. map_option (\<lambda>r. r\<lparr>SiteSettings.is_active := False\<rparr>)
                (map_of (site_settings two_singletons_db) k'))
          (k \<mapsto> demo_settings ''New'' True))"
  using C1_one_active_row [of two_singletons_db
      "[(None, demo_profile ''Cai'' True), (Some 2, demo_profile ''Bob'' True)]"
      "(Some 2, demo_profile ''Bob'' True)"
      "[(Some 4, demo_settings ''Old'' True), (None, demo_settings ''New'' True)]"
      "(None, demo_settings ''New'' True)"]
  by (simp add: two_singletons_db_def empty_db_def demo_profile_def demo_settings_def)

section \<open>Slug derivation (C2)\<close>

text \<open>A slug that \<open>slugify\<close> derives has slug characters only.\<close>

lemma strip_subset: "set (strip P s) \<subseteq> set s"
  unfolding strip_def by (auto dest!: set_dropWhileD)

lemma hyphenate_chars: "c \<in> set (hyphenate s) \<Longrightarrow> c = CHR ''-'' \<or> (c \<in> set s \<and> \<not> is_sep c)"
  by (induction s rule: hyphenate.induct) (auto split: if_splits dest: set_dropWhileD)

lemma lower_char_word: "is_word (lower_char c) \<Longrightarrow> is_slug_char (lower_char c)"
  by (auto simp: is_word_def is_slug_char_def lower_char_def Let_def split: if_splits)

lemma slugify_chars: "c \<in> set (slugify v) \<Longrightarrow> is_slug_char c"
proof -
  assume "c \<in> set (slugify v)"
  then have "c \<in> set (hyphenate (filter (\<lambda>c. is_word c \<or> is_space c \<or> c = CHR ''-'')
          (lower (filter is_ascii v))))"
    unfolding slugify_def using strip_subset by blast
  then consider "c = CHR ''-''" |
    "c \<in> set (filter (\<lambda>c. is_word c \<or> is_space c \<or> c = CHR ''-'') (lower (filter is_ascii v)))"
      "\<not> is_sep c"
    using hyphenate_chars by blast
  then show ?thesis
  proof cases
    case 1
    then show ?thesis by (simp add: is_slug_char_def)
  next
    case 2
    then have "is_word c" and "c \<in> set (lower (filter is_ascii v))"
      by (auto simp: is_sep_def)
    then show ?thesis by (auto simp: lower_def intro: lower_char_word)
  qed
qed

lemma slugify_examples:
  "slugify ''Data Science'' = ''data-science''"
  "slugify ''Backend-Python 3'' = ''backend-python-3''"
  "slugify ''Web Apps'' = ''web-apps''"
  "slugify ''My Portfolio!'' = ''my-portfolio''"
  "slugify ''Django Tips'' = ''django-tips''"
  "slugify ''Dev Ops'' = ''dev-ops''"
  "slugify ''C++'' = ''c''"
  "slugify ''Hello, World'' = ''hello-world''"
  "slugify ''!!!'' = []"
  "slugify ''Shouting'' = ''shouting''"
  by code_simp+

lemma SkillArea_save_slug:
  "SkillArea_save db (pk, r) = Inr (db', (k, r')) \<Longrightarrow>
     map_of (skill_areas db') k = Some r' \<and>
     SkillArea.slug r' = (if SkillArea.slug r = [] then slugify (SkillArea.name r) else SkillArea.slug r)"
  unfolding SkillArea_save_def Let_def snd_conv fst_conv
  by (auto split: sum.splits prod.splits if_splits dest!: Model_save_stored)

lemma Skill_save_slug:
  "Skill_save db (pk, r) = Inr (db', (k, r')) \<Longrightarrow>
     map_of (skills db') k = Some r' \<and>
     (if Skill.slug r = []
      then \<exists>a. map_of (skill_areas db) (Skill.area r) = Some a \<and>
             Skill.slug r' = slugify (SkillArea.name a @ ''-'' @ Skill.name r)
      else Skill.slug r' = Skill.slug r)"
  unfolding Skill_save_def Let_def snd_conv fst_conv related_def
  by (auto split: sum.splits prod.splits if_splits option.splits dest!: Model_save_stored)

lemma ProjectCategory_save_slug:
  "ProjectCategory_save db (pk, r) = Inr (db', (k, r')) \<Longrightarrow>
     map_of (project_categories db') k = Some r' \<and>
     ProjectCategory.slug r' =
       (if ProjectCategory.slug r = [] then slugify (ProjectCategory.name r)
        else ProjectCategory.slug r)"
  unfolding ProjectCategory_save_def Let_def snd_conv fst_conv
  by (auto split: sum.splits prod.splits if_splits dest!: Model_save_stored)

lemma Project_save_slug:
  "Project_save db (pk, r) = Inr (db', (k, r')) \<Longrightarrow>
     map_of (projects db') k = Some r' \<and>
     Project.slug r' = (if Project.slug r = [] then slugify (Project.title r) else Project.slug r)"
  unfolding Project_save_def Let_def snd_conv fst_conv
  by (auto split: sum.splits prod.splits if_splits dest!: Model_save_stored)

lemma BlogSeries_save_slug:
  "BlogSeries_save db (pk, r) = Inr (db', (k, r')) \<Longrightarrow>
     map_of (blog_series db') k = Some r' \<and>
     BlogSeries.slug r' =
       (if BlogSeries.slug r = [] then slugify (BlogSeries.name r) else BlogSeries.slug r)"
  unfolding BlogSeries_save_def Let_def snd_conv fst_conv
  by (auto split: sum.splits prod.splits if_splits dest!: Model_save_stored)

lemma BlogCategory_save_slug:
  "BlogCategory_save db (pk, r) = Inr (db', (k, r')) \<Longrightarrow>
     map_of (blog_categories db') k = Some r' \<and>
     BlogCategory.slug r' =
       (if BlogCategory.slug r = [] then slugify (BlogCategory.name r) else BlogCategory.slug r)"
  unfolding BlogCategory_save_def Let_def snd_conv fst_conv
  by (auto split: sum.splits prod.splits if_splits dest!: Model_save_stored)

lemma BlogTag_save_slug:
  "BlogTag_save db (pk, r) = Inr (db', (k, r')) \<Longrightarrow>
     map_of (blog_tags db') k = Some r' \<and>
     BlogTag.slug r' = (if BlogTag.slug r = [] then slugify (BlogTag.name r) else BlogTag.slug r)"
  unfolding BlogTag_save_def Let_def snd_conv fst_conv
  by (auto split: sum.splits prod.splits if_splits dest!: Model_save_stored)

lemma BlogPost_save_slug:
  "BlogPost_save db now None (pk, r) = Inr (db', (pk', r')) \<Longrightarrow>
     (\<exists>k. pk' = Some k \<and> map_of (blog_posts db') k = Some r') \<and>
     BlogPost.slug r' = (if BlogPost.slug r = [] then slugify (BlogPost.title r) else BlogPost.slug r)"
  unfolding BlogPost_save_def Let_def snd_conv fst_conv
  by (auto split: sum.splits prod.splits if_splits dest!: Model_save_stored)

text \<open>
  C2 (as amended). A save of a \<open>SkillArea\<close>, \<open>Skill\<close>, \<open>Project\<close>,
  \<open>BlogPost\<close>, \<open>BlogSeries\<close>, \<open>BlogCategory\<close>, \<open>BlogTag\<close> or
  \<open>ProjectCategory\<close> instance whose slug is empty stores it with the slug
  \<open>slugify\<close> derives from its name or title (for \<open>Skill\<close>, from the area name, a
  hyphen and the skill name); a save of an instance whose slug is not empty stores the
  slug as it is, whatever the name or title. A slug derived at creation therefore stays
  through later edits of the name as long as it is not empty.
\<close>

theorem C2_slug_derivation:
  "(SkillArea_save db (pkA, a) = Inr (dbA, (kA, a')) \<longrightarrow>
      map_of (skill_areas dbA) kA = Some a' \<and>
      SkillArea.slug a' =
        (if SkillArea.slug a = [] then slugify (SkillArea.name a) else SkillArea.slug a)) \<and>
   (Skill_save db (pkS, s) = Inr (dbS, (kS, s')) \<longrightarrow>
      map_of (skills dbS) kS = Some s' \<and>
      (if Skill.slug s = []
       then \<exists>ar. map_of (skill_areas db) (Skill.area s) = Some ar \<and>
              Skill.slug s' = slugify (SkillArea.name ar @ ''-'' @ Skill.name s)
       else Skill.slug s' = Skill.slug s)) \<and>
   (Project_save db (pkP, p) = Inr (dbP, (kP, p')) \<longrightarrow>
      map_of (projects dbP) kP = Some p' \<and>
      Project.slug p' = (if Project.slug p = [] then slugify (Project.title p) else Project.slug p)) \<and>
   (BlogPost_save db now None (pkB, b) = Inr (dbB, (pkB', b')) \<longrightarrow>
      (\<exists>k. pkB' = Some k \<and> map_of (blog_posts dbB) k = Some b') \<and>
      BlogPost.slug b' =
        (if BlogPost.slug b = [] then slugify (BlogPost.title b) else BlogPost.slug b)) \<and>
   (BlogSeries_save db (pkE, e) = Inr (dbE, (kE, e')) \<longrightarrow>
      map_of (blog_series dbE) kE = Some e' \<and>
      BlogSeries.slug e' =
        (if BlogSeries.slug e = [] then slugify (BlogSeries.name e) else BlogSeries.slug e)) \<and>
   (BlogCategory_save db (pkC, c) = Inr (dbC, (kC, c')) \<longrightarrow>
      map_of (blog_categories dbC) kC = Some c' \<and>
      BlogCategory.slug c' =
        (if BlogCategory.slug c = [] then slugify (BlogCategory.name c) else BlogCategory.slug c)) \<and>
   (BlogTag_save db (pkT, t) = Inr (dbT, (kT, t')) \<longrightarrow>
      map_of (blog_tags dbT) kT = Some t' \<and>
      BlogTag.slug t' = (if BlogTag.slug t = [] then slugify (BlogTag.name t) else BlogTag.slug t)) \<and>
   (ProjectCategory_save db (pkG, g) = Inr (dbG, (kG, g')) \<longrightarrow>
      map_of (project_categories dbG) kG = Some g' \<and>
      ProjectCategory.slug g' =
        (if ProjectCategory.slug g = [] then slugify (ProjectCategory.name g)
         else ProjectCategory.slug g))"
  using SkillArea_save_slug [of db pkA a dbA kA a'] Skill_save_slug [of db pkS s dbS kS s']
    Project_save_slug [of db pkP p dbP kP p'] BlogPost_save_slug [of db now pkB b dbB pkB' b']
    BlogSeries_save_slug [of db pkE e dbE kE e'] BlogCategory_save_slug [of db pkC c dbC kC c']
    BlogTag_save_slug [of db pkT t dbT kT t'] ProjectCategory_save_slug [of db pkG g dbG kG g']
  by blast

text \<open>
  C2 as stated fails when the derived slug is itself empty: a project created with the
  title \<open>!!!\<close> gets the empty slug, and the next save, after the title was edited,
  derives a new slug from the new title.
\<close>

theorem C2_slug_recomputed_counterexample:
  "Project.slug (demo_project ''!!!'' [] None ''Why'' ''How'') = [] \<and>
   Project_save empty_db (None, demo_project ''!!!'' [] None ''Why'' ''How'') =
     Inr (empty_db\<lparr>projects := [(1, demo_project ''!!!'' [] None ''Why'' ''How'')]\<rparr>,
          (1, demo_project ''!!!'' [] None ''Why'' ''How'')) \<and>
   Project_save (empty_db\<lparr>projects := [(1, demo_project ''!!!'' [] None ''Why'' ''How'')]\<rparr>)
       (Some 1, (demo_project ''!!!'' [] None ''Why'' ''How'')\<lparr>Project.title := ''Shouting''\<rparr>) =
     Inr (empty_db\<lparr>projects := [(1, demo_project ''Shouting'' ''shouting'' None ''Why'' ''How'')]\<rparr>,
          (1, demo_project ''Shouting'' ''shouting'' None ''Why'' ''How'')) \<and>
   Project.slug (demo_project ''Shouting'' ''shouting'' None ''Why'' ''How'') \<noteq>
     Project.slug (demo_project ''!!!'' [] None ''Why'' ''How'')"
  by (simp add: Project_save_def Model_save_def Project_unique_def fk_ok_def Let_def
      empty_db_def demo_project_def slugify_examples fresh_pk_def)

theorem C2_slug_derivation_witness:
  "SkillArea_save backend_db (None, demo_area ''Data Science'' []) =
     Inr (backend_db\<lparr>skill_areas := [(1, demo_area ''Backend'' ''backend''),
                                      (2, demo_area ''Data Science'' ''data-science'')]\<rparr>,
          (2, demo_area ''Data Science'' ''data-science'')) \<and>
   Skill_save backend_db (None, demo_skill 1 ''Python 3'' []) =
     Inr (backend_db\<lparr>skills := [(1, demo_skill 1 ''Python 3'' ''backend-python-3'')]\<rparr>,
          (1, demo_skill 1 ''Python 3'' ''backend-python-3'')) \<and>
   Project_save backend_db (None, demo_project ''My Portfolio!'' [] None ''Why'' ''How'') =
     Inr (backend_db\<lparr>projects :=
            [(1, demo_project ''My Portfolio!'' ''my-portfolio'' None ''Why'' ''How'')]\<rparr>,
          (1, demo_project ''My Portfolio!'' ''my-portfolio'' None ''Why'' ''How'')) \<and>
   BlogPost_save backend_db noon None (None, demo_post ''Hello, World'' [] ''draft'' None 0) =
     Inr (backend_db\<lparr>blog_posts :=
            [(1, demo_post ''Hello, World'' ''hello-world'' ''draft'' None 0)]\<rparr>,
          (Some 1, demo_post ''Hello, World'' ''hello-world'' ''draft'' None 0)) \<and>
   BlogSeries_save backend_db (None, demo_series ''Django Tips'' []) =
     Inr (backend_db\<lparr>blog_series := [(1, demo_series ''Django Tips'' ''django-tips'')]\<rparr>,
          (1, demo_series ''Django Tips'' ''django-tips'')) \<and>
   BlogCategory_save backend_db (None, demo_blog_category ''Dev Ops'' []) =
     Inr (backend_db\<lparr>blog_categories := [(1, demo_blog_category ''Dev Ops'' ''dev-ops'')]\<rparr>,
          (1, demo_blog_category ''Dev Ops'' ''dev-ops'')) \<and>
   BlogTag_save backend_db (None, demo_tag ''C++'' []) =
     Inr (backend_db\<lparr>blog_tags := [(1, demo_tag ''C++'' ''c'')]\<rparr>, (1, demo_tag ''C++'' ''c'')) \<and>
   ProjectCategory_save backend_db (None, demo_category ''Web Apps'' []) =
     Inr (backend_db\<lparr>project_categories := [(1, demo_category ''Web Apps'' ''web-apps'')]\<rparr>,
          (1, demo_category ''Web Apps'' ''web-apps'')) \<and>
   SkillArea.slug (demo_area ''Data Science'' ''data-science'') = slugify ''Data Science'' \<and>
   Skill.slug (demo_skill 1 ''Python 3'' ''backend-python-3'') = slugify ''Backend-Python 3'' \<and>
   Project.slug (demo_project ''My Portfolio!'' ''my-portfolio'' None ''Why'' ''How'') =
     slugify ''My Portfolio!'' \<and>
   BlogPost.slug (demo_post ''Hello, World'' ''hello-world'' ''draft'' None 0) =
     slugify ''Hello, World'' \<and>
   BlogSeries.slug (demo_series ''Django Tips'' ''django-tips'') = slugify ''Django Tips'' \<and>
   BlogCategory.slug (demo_blog_category ''Dev Ops'' ''dev-ops'') = slugify ''Dev Ops'' \<and>
   BlogTag.slug (demo_tag ''C++'' ''c'') = slugify ''C++'' \<and>
   ProjectCategory.slug (demo_category ''Web Apps'' ''web-apps'') = slugify ''Web Apps''"
proof -
  have eA: "SkillArea_save backend_db (None, demo_area ''Data Science'' []) =
     Inr (backend_db\<lparr>skill_areas := [(1, demo_area ''Backend'' ''backend''),
                                      (2, demo_area ''Data Science'' ''data-science'')]\<rparr>,
          (2, demo_area ''Data Science'' ''data-science''))"
    by (simp add: SkillArea_save_def Model_save_def SkillArea_unique_def Let_def fresh_pk_def
        backend_db_def empty_db_def demo_area_def slugify_examples)
  have eS: "Skill_save backend_db (None, demo_skill 1 ''Python 3'' []) =
     Inr (backend_db\<lparr>skills := [(1, demo_skill 1 ''Python 3'' ''backend-python-3'')]\<rparr>,
          (1, demo_skill 1 ''Python 3'' ''backend-python-3''))"
    by (simp add: Skill_save_def Model_save_def Skill_unique_def Let_def fresh_pk_def related_def
        fk_ok_def backend_db_def empty_db_def demo_area_def demo_skill_def slugify_examples)
  have eP: "Project_save backend_db (None, demo_project ''My Portfolio!'' [] None ''Why'' ''How'') =
     Inr (backend_db\<lparr>projects :=
            [(1, demo_project ''My Portfolio!'' ''my-portfolio'' None ''Why'' ''How'')]\<rparr>,
          (1, demo_project ''My Portfolio!'' ''my-portfolio'' None ''Why'' ''How''))"
    by (simp add: Project_save_def Model_save_def Project_unique_def Let_def fresh_pk_def
        fk_ok_def backend_db_def empty_db_def demo_project_def slugify_examples)
  have eB: "BlogPost_save backend_db noon None (None, demo_post ''Hello, World'' [] ''draft'' None 0) =
     Inr (backend_db\<lparr>blog_posts :=
            [(1, demo_post ''Hello, World'' ''hello-world'' ''draft'' None 0)]\<rparr>,
          (Some 1, demo_post ''Hello, World'' ''hello-world'' ''draft'' None 0))"
    by (simp add: BlogPost_save_def Model_save_def BlogPost_unique_def Let_def fresh_pk_def
        fk_ok_def backend_db_def empty_db_def demo_post_def slugify_examples)
  have eE: "BlogSeries_save backend_db (None, demo_series ''Django Tips'' []) =
     Inr (backend_db\<lparr>blog_series := [(1, demo_series ''Django Tips'' ''django-tips'')]\<rparr>,
          (1, demo_series ''Django Tips'' ''django-tips''))"
    by (simp add: BlogSeries_save_def Model_save_def BlogSeries_unique_def Let_def fresh_pk_def
        backend_db_def empty_db_def demo_series_def slugify_examples)
  have eC: "BlogCategory_save backend_db (None, demo_blog_category ''Dev Ops'' []) =
     Inr (backend_db\<lparr>blog_categories := [(1, demo_blog_category ''Dev Ops'' ''dev-ops'')]\<rparr>,
          (1, demo_blog_category ''Dev Ops'' ''dev-ops''))"
    by (simp add: BlogCategory_save_def Model_save_def BlogCategory_unique_def Let_def
        fresh_pk_def backend_db_def empty_db_def demo_blog_category_def slugify_examples)
  have eT: "BlogTag_save backend_db (None, demo_tag ''C++'' []) =
     Inr (backend_db\<lparr>blog_tags := [(1, demo_tag ''C++'' ''c'')]\<rparr>, (1, demo_tag ''C++'' ''c''))"
    by (simp add: BlogTag_save_def Model_save_def BlogTag_unique_def Let_def fresh_pk_def
        backend_db_def empty_db_def demo_tag_def slugify_examples)
  have eG: "ProjectCategory_save backend_db (None, demo_category ''Web Apps'' []) =
     Inr (backend_db\<lparr>project_categories := [(1, demo_category ''Web Apps'' ''web-apps'')]\<rparr>,
          (1, demo_category ''Web Apps'' ''web-apps''))"
    by (simp add: ProjectCategory_save_def Model_save_def ProjectCategory_unique_def Let_def
        fresh_pk_def backend_db_def empty_db_def demo_category_def slugify_examples)
  have area: "map_of (skill_areas backend_db) 1 = Some (demo_area ''Backend'' ''backend'')"
    by (simp add: backend_db_def empty_db_def)
  have empty: "SkillArea.slug (demo_area ''Data Science'' []) = []"
    "Skill.slug (demo_skill 1 ''Python 3'' []) = []"
    "Project.slug (demo_project ''My Portfolio!'' [] None ''Why'' ''How'') = []"
    "BlogPost.slug (demo_post ''Hello, World'' [] ''draft'' None 0) = []"
    "BlogSeries.slug (demo_series ''Django Tips'' []) = []"
    "BlogCategory.slug (demo_blog_category ''Dev Ops'' []) = []"
    "BlogTag.slug (demo_tag ''C++'' []) = []"
    "ProjectCategory.slug (demo_category ''Web Apps'' []) = []"
    by (simp_all add: demo_area_def demo_skill_def demo_project_def demo_post_def
        demo_series_def demo_blog_category_def demo_tag_def demo_category_def)
  have names: "SkillArea.name (demo_area ''Data Science'' []) = ''Data Science''"
    "SkillArea.name (demo_area ''Backend'' ''backend'') = ''Backend''"
    "Skill.name (demo_skill 1 ''Python 3'' []) = ''Python 3''"
    "Skill.area (demo_skill 1 ''Python 3'' []) = 1"
    "Project.title (demo_project ''My Portfolio!'' [] None ''Why'' ''How'') = ''My Portfolio!''"
    "BlogPost.title (demo_post ''Hello, World'' [] ''draft'' None 0) = ''Hello, World''"
    "BlogSeries.name (demo_series ''Django Tips'' []) = ''Django Tips''"
    "BlogCategory.name (demo_blog_category ''Dev Ops'' []) = ''Dev Ops''"
    "BlogTag.name (demo_tag ''C++'' []) = ''C++''"
    "ProjectCategory.name (demo_category ''Web Apps'' []) = ''Web Apps''"
    by (simp_all add: demo_area_def demo_skill_def demo_project_def demo_post_def
        demo_series_def demo_blog_category_def demo_tag_def demo_category_def)
  note inst = C2_slug_derivation [where db = backend_db and now = noon
      and pkA = None and a = "demo_area ''Data Science'' []"
      and pkS = None and s = "demo_skill 1 ''Python 3'' []"
      and pkP = None and p = "demo_project ''My Portfolio!'' [] None ''Why'' ''How''"
      and pkB = None and b = "demo_post ''Hello, World'' [] ''draft'' None 0"
      and pkE = None and e = "demo_series ''Django Tips'' []"
      and pkC = None and c = "demo_blog_category ''Dev Ops'' []"
      and pkT = None and t = "demo_tag ''C++'' []"
      and pkG = None and g = "demo_category ''Web Apps'' []"
      and dbA = "backend_db\<lparr>skill_areas := [(1, demo_area ''Backend'' ''backend''),
                                      (2, demo_area ''Data Science'' ''data-science'')]\<rparr>"
      and kA = 2 and a' = "demo_area ''Data Science'' ''data-science''"
      and dbS = "backend_db\<lparr>skills := [(1, demo_skill 1 ''Python 3'' ''backend-python-3'')]\<rparr>"
      and kS = 1 and s' = "demo_skill 1 ''Python 3'' ''backend-python-3''"
      and dbP = "backend_db\<lparr>projects :=
            [(1, demo_project ''My Portfolio!'' ''my-portfolio'' None ''Why'' ''How'')]\<rparr>"
      and kP = 1 and p' = "demo_project ''My Portfolio!'' ''my-portfolio'' None ''Why'' ''How''"
      and dbB = "backend_db\<lparr>blog_posts :=
            [(1, demo_post ''Hello, World'' ''hello-world'' ''draft'' None 0)]\<rparr>"
      and pkB' = "Some 1" and b' = "demo_post ''Hello, World'' ''hello-world'' ''draft'' None 0"
      and dbE = "backend_db\<lparr>blog_series := [(1, demo_series ''Django Tips'' ''django-tips'')]\<rparr>"
      and kE = 1 and e' = "demo_series ''Django Tips'' ''django-tips''"
      and dbC = "backend_db\<lparr>blog_categories := [(1, demo_blog_category ''Dev Ops'' ''dev-ops'')]\<rparr>"
      and kC = 1 and c' = "demo_blog_category ''Dev Ops'' ''dev-ops''"
      and dbT = "backend_db\<lparr>blog_tags := [(1, demo_tag ''C++'' ''c'')]\<rparr>"
      and kT = 1 and t' = "demo_tag ''C++'' ''c''"
      and dbG = "backend_db\<lparr>project_categories := [(1, demo_category ''Web Apps'' ''web-apps'')]\<rparr>"
      and kG = 1 and g' = "demo_category ''Web Apps'' ''web-apps''"]
  show ?thesis
    using inst eA eS eP eB eE eC eT eG area empty names by simp
qed

section \<open>Publication date of a post (C3)\<close>



section \<open>Duration of an experience (C4)\<close>

lemma duration_text_examples:
  "duration_text 1 2 = ''1 yr 2 mos''"
  "duration_text 0 0 = ''Less than 1 month''"
  "duration_text 2 0 = ''2 yrs''"
  "duration_text 0 1 = ''1 mo''"
  by code_simp+

lemma duration_always_raises:
  "duration self =
     Inl (case Experience.end_date self of
            None \<Rightarrow> AttributeError ''now''
          | Some e \<Rightarrow> NameError ''relativedelta'')"
  by (simp add: duration_def module_timezone_now_def module_relativedelta_def split: option.splits)

text \<open>
  C4. The claim expects \<open>duration\<close> to render the elapsed years and months, "1 yr 2
  mos" for a start on 2020-01-15 and an end on 2021-03-15. The property raises instead:
  \<open>NameError\<close> for \<open>relativedelta\<close> when the end date is set, and
  \<open>AttributeError\<close> for \<open>timezone.now\<close> when it is not.
\<close>

theorem C4_duration_raises:
  "duration (demo_experience (Date 2020 1 15) (Some (Date 2021 3 15)) False) =
     Inl (NameError ''relativedelta'') \<and>
   duration (demo_experience (Date 2024 1 1) None True) = Inl (AttributeError ''now'')"
  by (simp add: duration_always_raises demo_experience_def)

section \<open>Expiry of a certification (C5)\<close>

lemma date_less_irrefl: "\<not> date_less d d"
  by (simp add: date_less_def)

lemma date_less_trans: "date_less a b \<Longrightarrow> date_less b c \<Longrightarrow> date_less a c"
  by (auto simp: date_less_def)

lemma date_less_linear: "date_less a b \<or> a = b \<or> date_less b a"
  by (cases a; cases b) (auto simp: date_less_def)

text \<open>
  C5. \<open>is_expired\<close> is false for a certification without expiry date, true when the
  expiry date is strictly before the current date, false otherwise, and false in
  particular when the expiry date is the current date.
\<close>

theorem C5_is_expired:
  "(Certification.expiry_date c = None \<longrightarrow> \<not> is_expired c today) \<and>
   (Certification.expiry_date c = Some d \<and> date_less d today \<longrightarrow> is_expired c today) \<and>
   (Certification.expiry_date c = Some d \<and> \<not> date_less d today \<longrightarrow> \<not> is_expired c today) \<and>
   (Certification.expiry_date c = Some today \<longrightarrow> \<not> is_expired c today)"
  by (simp add: is_expired_def date_less_irrefl)

theorem C5_is_expired_witness:
  "\<not> is_expired (demo_cert None) (Date 2024 5 20) \<and>
   is_expired (demo_cert (Some (Date 2024 5 19))) (Date 2024 5 20) \<and>
   is_expired (demo_cert (Some (Date 2023 12 31))) (Date 2024 5 20) \<and>
   \<not> is_expired (demo_cert (Some (Date 2024 6 1))) (Date 2024 5 20) \<and>
   \<not> is_expired (demo_cert (Some (Date 2024 5 20))) (Date 2024 5 20)"
  using C5_is_expired [of "demo_cert None" "Date 2024 5 20" "Date 2024 5 19"]
    C5_is_expired [of "demo_cert (Some (Date 2024 5 19))" "Date 2024 5 20" "Date 2024 5 19"]
    C5_is_expired [of "demo_cert (Some (Date 2023 12 31))" "Date 2024 5 20" "Date 2023 12 31"]
    C5_is_expired [of "demo_cert (Some (Date 2024 6 1))" "Date 2024 5 20" "Date 2024 6 1"]
    C5_is_expired [of "demo_cert (Some (Date 2024 5 20))" "Date 2024 5 20" "Date 2024 5 20"]
  by (simp add: demo_cert_def date_less_def)

section \<open>Viewing a post (C6)\<close>

lemma filter_distinct_key:
  "distinct (map f xs) \<Longrightarrow> x \<in> set xs \<Longrightarrow> filter (\<lambda>y. f y = f x) xs = [x]"
proof (induction xs)
  case Nil
  then show ?case by simp
next
  case (Cons a xs)
  show ?case
  proof (cases "a = x")
    case True
    have "filter (\<lambda>y. f y = f x) xs = []"
      using Cons.prems(1) True by (auto simp: filter_empty_conv intro: rev_image_eqI)
    then show ?thesis using True by simp
  next
    case False
    then have "x \<in> set xs" using Cons.prems(2) by simp
    moreover have "f a \<noteq> f x" using Cons.prems(1) calculation by auto
    ultimately show ?thesis using Cons by simp
  qed
qed

lemma update_same_image:
  "distinct (map fst tbl) \<Longrightarrow> (k, p) \<in> set tbl \<Longrightarrow> g p' = g p \<Longrightarrow>
     map (\<lambda>(k, r). g r) (AList.update k p' tbl) = map (\<lambda>(k, r). g r) tbl"
proof (induction tbl)
  case Nil
  then show ?case by simp
next
  case (Cons a tbl)
  obtain k0 r0 where a: "a = (k0, r0)" by (cases a)
  show ?case
  proof (cases "k0 = k")
    case True
    then have "r0 = p" using Cons.prems(1,2) a by (auto simp: rev_image_eqI)
    then show ?thesis using a True Cons.prems(3) by simp
  next
    case False
    then show ?thesis using Cons a by auto
  qed
qed

lemma posts_by_slug:
  assumes "wf_posts tbl" and "(k, p) \<in> set tbl"
  shows "qs_filter (\<lambda>r. BlogPost.slug r = BlogPost.slug p) tbl = [(k, p)]"
proof -
  have "distinct (map (\<lambda>y. BlogPost.slug (snd y)) tbl)"
    using assms(1) by (simp add: wf_posts_def case_prod_unfold)
  from filter_distinct_key [OF this assms(2)]
  show ?thesis by (simp add: qs_filter_def case_prod_unfold)
qed

lemma published_by_slug:
  assumes "wf_posts tbl" and "(k, p) \<in> set tbl"
  shows "qs_filter (\<lambda>r. BlogPost.slug r = BlogPost.slug p)
           (qs_filter (\<lambda>r. BlogPost.status r = ''published'') tbl) =
         (if BlogPost.status p = ''published'' then [(k, p)] else [])"
proof -
  have "qs_filter (\<lambda>r. BlogPost.slug r = BlogPost.slug p)
           (qs_filter (\<lambda>r. BlogPost.status r = ''published'') tbl) =
        qs_filter (\<lambda>r. BlogPost.status r = ''published'')
           (qs_filter (\<lambda>r. BlogPost.slug r = BlogPost.slug p) tbl)"
    by (auto simp: qs_filter_def intro: filter_cong)
  then show ?thesis
    by (simp add: posts_by_slug [OF assms]) (simp add: qs_filter_def)
qed

lemma view_once:
  assumes wf: "wf_posts (blog_posts db)" and mem: "(k, p) \<in> set (blog_posts db)"
    and pub: "BlogPost.status p = ''published''"
  shows "\<exists>obj. BlogPostDetailView_get_object db now (BlogPost.slug p) =
           Inr (db\<lparr>blog_posts :=
                    AList.update k (p\<lparr>BlogPost.view_count := BlogPost.view_count p + 1\<rparr>)
                      (blog_posts db)\<rparr>,
                (Some k, obj)) \<and>
         BlogPost.view_count obj = BlogPost.view_count p + 1 \<and>
         BlogPost.title obj = BlogPost.title p \<and> BlogPost.content obj = BlogPost.content p"
proof -
  define obj0 where "obj0 = p\<lparr>BlogPost.view_count := BlogPost.view_count p + 1\<rparr>"
  define r1 where "r1 = (if BlogPost.slug obj0 = []
      then obj0\<lparr>BlogPost.slug := slugify (BlogPost.title obj0)\<rparr> else obj0)"
  define r2 where "r2 = (if BlogPost.status r1 = ''published'' \<and> BlogPost.published_date r1 = None
      then r1\<lparr>BlogPost.published_date := Some now\<rparr> else r1)"
  have vc: "BlogPost.view_count r2 = BlogPost.view_count p + 1"
    "BlogPost.title r2 = BlogPost.title p" "BlogPost.content r2 = BlogPost.content p"
    by (simp_all add: r2_def r1_def obj0_def)
  have found: "DetailView_get_object (BlogPostDetailView_get_queryset db) BlogPost.slug
      (BlogPost.slug p) = Inr (k, p)"
    by (simp add: DetailView_get_object_def BlogPostDetailView_get_queryset_def qs_get_def
        published_by_slug [OF wf mem] pub)
  have row: "map_of (blog_posts db) k = Some p"
    using wf mem by (simp add: wf_posts_def)
  have noclash: "\<not> list_ex (\<lambda>(k', r'). k' \<noteq> k \<and> BlogPost_unique obj0 r') (blog_posts db)"
  proof
    assume "list_ex (\<lambda>(k', r'). k' \<noteq> k \<and> BlogPost_unique obj0 r') (blog_posts db)"
    then obtain k' r' where o: "(k', r') \<in> set (blog_posts db)" "k' \<noteq> k"
      "BlogPost.slug r' = BlogPost.slug p"
      by (auto simp: list_ex_iff BlogPost_unique_def obj0_def)
    then have "(k', r') \<in> set (qs_filter (\<lambda>r. BlogPost.slug r = BlogPost.slug p) (blog_posts db))"
      by (simp add: qs_filter_def)
    then show False using posts_by_slug [OF wf mem] o(2) by simp
  qed
  have copy: "BlogPost_copy ''view_count'' r2 p = obj0"
    by (simp add: BlogPost_copy_def vc obj0_def)
  have cols: "''view_count'' \<in> set BlogPost_columns"
    by (simp add: BlogPost_columns_def)
  have fields: "Model_save_fields BlogPost_unique BlogPost_columns BlogPost_copy [''view_count'']
      (blog_posts db) (Some k, r2) = Inr (AList.update k obj0 (blog_posts db), Some (k, r2))"
    using noclash by (simp add: Model_save_fields_def cols row copy)
  have "BlogPost_save db now (Some [''view_count'']) (Some k, obj0) =
      Inr (db\<lparr>blog_posts := AList.update k obj0 (blog_posts db)\<rparr>, (Some k, r2))"
    unfolding BlogPost_save_def Let_def snd_conv fst_conv r1_def [symmetric] r2_def [symmetric]
    by (simp add: fields)
  then have "BlogPostDetailView_get_object db now (BlogPost.slug p) =
      Inr (db\<lparr>blog_posts := AList.update k obj0 (blog_posts db)\<rparr>, (Some k, r2))"
    by (simp add: BlogPostDetailView_get_object_def found obj0_def)
  then show ?thesis using vc by (auto simp: obj0_def)
qed

lemma view_keeps_wf:
  assumes wf: "wf_posts tbl" and mem: "(k, p) \<in> set tbl"
  shows "wf_posts (AList.update k (p\<lparr>BlogPost.view_count := v\<rparr>) tbl) \<and>
         (k, p\<lparr>BlogPost.view_count := v\<rparr>) \<in> set (AList.update k (p\<lparr>BlogPost.view_count := v\<rparr>) tbl)"
proof -
  have d: "distinct (map fst tbl)" using wf by (simp add: wf_posts_def)
  have "map (\<lambda>(k, r). BlogPost.slug r) (AList.update k (p\<lparr>BlogPost.view_count := v\<rparr>) tbl) =
      map (\<lambda>(k, r). BlogPost.slug r) tbl"
    using d mem by (rule update_same_image) simp
  then have "wf_posts (AList.update k (p\<lparr>BlogPost.view_count := v\<rparr>) tbl)"
    using wf by (simp add: wf_posts_def distinct_update)
  moreover have "map_of (AList.update k (p\<lparr>BlogPost.view_count := v\<rparr>) tbl) k =
      Some (p\<lparr>BlogPost.view_count := v\<rparr>)"
    by (simp add: update_conv')
  ultimately show ?thesis by (auto dest: map_of_SomeD)
qed

lemma retrieve_all_counts:
  "wf_posts (blog_posts db) \<Longrightarrow> (k, p) \<in> set (blog_posts db) \<Longrightarrow>
   BlogPost.status p = ''published'' \<Longrightarrow>
     \<exists>db'. retrieve_all db nows (BlogPost.slug p) = Inr db' \<and>
       map_of (blog_posts db') k =
         Some (p\<lparr>BlogPost.view_count := BlogPost.view_count p + int (length nows)\<rparr>)"
proof (induction nows arbitrary: db p)
  case Nil
  then show ?case by (simp add: wf_posts_def)
next
  case (Cons t ts)
  define p1 where "p1 = p\<lparr>BlogPost.view_count := BlogPost.view_count p + 1\<rparr>"
  define db1 where "db1 = db\<lparr>blog_posts := AList.update k p1 (blog_posts db)\<rparr>"
  from view_once [OF Cons.prems, of t] obtain obj where
    once: "BlogPostDetailView_get_object db t (BlogPost.slug p) = Inr (db1, (Some k, obj))"
    by (auto simp: db1_def p1_def)
  have wf1: "wf_posts (blog_posts db1)" and mem1: "(k, p1) \<in> set (blog_posts db1)"
    using view_keeps_wf [OF Cons.prems(1,2), of "BlogPost.view_count p + 1"]
    by (simp_all add: db1_def p1_def)
  have pub1: "BlogPost.status p1 = ''published''" and slug1: "BlogPost.slug p1 = BlogPost.slug p"
    using Cons.prems(3) by (simp_all add: p1_def)
  from Cons.IH [OF wf1 mem1 pub1] obtain db' where
    rest: "retrieve_all db1 ts (BlogPost.slug p1) = Inr db'"
    and cnt: "map_of (blog_posts db') k =
      Some (p1\<lparr>BlogPost.view_count := BlogPost.view_count p1 + int (length ts)\<rparr>)"
    by blast
  have "retrieve_all db (t # ts) (BlogPost.slug p) = Inr db'"
    using once rest slug1 by simp
  moreover have "p1\<lparr>BlogPost.view_count := BlogPost.view_count p1 + int (length ts)\<rparr> =
      p\<lparr>BlogPost.view_count := BlogPost.view_count p + int (length (t # ts))\<rparr>"
    by (simp add: p1_def)
  ultimately show ?case using cnt by simp
qed

lemma unpublished_404:
  assumes "wf_posts (blog_posts db)" and "(k, p) \<in> set (blog_posts db)"
    and "BlogPost.status p \<noteq> ''published''"
  shows "BlogPostDetailView_get_object db now (BlogPost.slug p) = Inl Http404"
  using assms(3)
  by (simp add: BlogPostDetailView_get_object_def DetailView_get_object_def
      BlogPostDetailView_get_queryset_def qs_get_def published_by_slug [OF assms(1,2)])

text \<open>
  C6. For a published post of a well-formed posts table, retrieving it through
  \<open>BlogPostDetailView.get_object\<close> any number of times in sequence succeeds each time
  and leaves its stored view count larger by exactly that number; one retrieval returns
  the post with the count one higher. Retrieving a post that is not published gives
  \<open>Http404\<close>.
\<close>

theorem C6_view_count:
  assumes "wf_posts (blog_posts db)" and "(k, p) \<in> set (blog_posts db)"
  shows "(BlogPost.status p = ''published'' \<longrightarrow>
            (\<exists>db'. retrieve_all db nows (BlogPost.slug p) = Inr db' \<and>
               map_of (blog_posts db') k =
                 Some (p\<lparr>BlogPost.view_count := BlogPost.view_count p + int (length nows)\<rparr>)) \<and>
            (\<exists>db' obj. BlogPostDetailView_get_object db now (BlogPost.slug p) =
                 Inr (db', (Some k, obj)) \<and>
               BlogPost.view_count obj = BlogPost.view_count p + 1 \<and>
               BlogPost.title obj = BlogPost.title p \<and>
               BlogPost.content obj = BlogPost.content p)) \<and>
         (BlogPost.status p \<noteq> ''published'' \<longrightarrow>
            BlogPostDetailView_get_object db now (BlogPost.slug p) = Inl Http404)"
proof (intro conjI impI)
  assume pub: "BlogPost.status p = ''published''"
  show "\<exists>db'. retrieve_all db nows (BlogPost.slug p) = Inr db' \<and>
          map_of (blog_posts db') k =
            Some (p\<lparr>BlogPost.view_count := BlogPost.view_count p + int (length nows)\<rparr>)"
    using assms pub by (rule retrieve_all_counts)
  from view_once [OF assms pub, of now]
  show "\<exists>db' obj. BlogPostDetailView_get_object db now (BlogPost.slug p) =
            Inr (db', (Some k, obj)) \<and>
          BlogPost.view_count obj = BlogPost.view_count p + 1 \<and>
          BlogPost.title obj = BlogPost.title p \<and>
          BlogPost.content obj = BlogPost.content p"
    by blast
next
  assume "BlogPost.status p \<noteq> ''published''"
  with assms show "BlogPostDetailView_get_object db now (BlogPost.slug p) = Inl Http404"
    by (rule unpublished_404)
qed

lemma retrieve_examples:
  "retrieve_all two_posts_db [noon, evening, evening] ''hello'' =
     Inr (empty_db\<lparr>blog_posts := [(1, demo_post ''Hello'' ''hello'' ''published'' (Some noon) 3),
                                  (2, demo_post ''Notes'' ''notes'' ''draft'' None 7)]\<rparr>)"
  "BlogPostDetailView_get_object two_posts_db noon ''notes'' = Inl Http404"
  by code_simp+

theorem C6_view_count_witness:
  "wf_posts (blog_posts two_posts_db) \<and>
   (1, demo_post ''Hello'' ''hello'' ''published'' (Some noon) 0) \<in> set (blog_posts two_posts_db) \<and>
   (2, demo_post ''Notes'' ''notes'' ''draft'' None 7) \<in> set (blog_posts two_posts_db) \<and>
   retrieve_all two_posts_db [noon, evening, evening] ''hello'' =
     Inr (empty_db\<lparr>blog_posts := [(1, demo_post ''Hello'' ''hello'' ''published'' (Some noon) 3),
                                  (2, demo_post ''Notes'' ''notes'' ''draft'' None 7)]\<rparr>) \<and>
   BlogPost.view_count (demo_post ''Hello'' ''hello'' ''published'' (Some noon) 3) =
     BlogPost.view_count (demo_post ''Hello'' ''hello'' ''published'' (Some noon) 0) +
       int (length [noon, evening, evening]) \<and>
   BlogPostDetailView_get_object two_posts_db noon ''notes'' = Inl Http404"
proof -
  have rows: "blog_posts two_posts_db =
      [(1, demo_post ''Hello'' ''hello'' ''published'' (Some noon) 0),
       (2, demo_post ''Notes'' ''notes'' ''draft'' None 7)]"
    by (simp add: two_posts_db_def empty_db_def)
  have wf: "wf_posts (blog_posts two_posts_db)"
    by (simp add: rows wf_posts_def demo_post_def)
  have m1: "(1, demo_post ''Hello'' ''hello'' ''published'' (Some noon) 0) \<in> set (blog_posts two_posts_db)"
    and m2: "(2, demo_post ''Notes'' ''notes'' ''draft'' None 7) \<in> set (blog_posts two_posts_db)"
    by (simp_all add: rows)
  have st: "BlogPost.status (demo_post ''Hello'' ''hello'' ''published'' (Some noon) 0) = ''published''"
    "BlogPost.status (demo_post ''Notes'' ''notes'' ''draft'' None 7) \<noteq> ''published''"
    "BlogPost.slug (demo_post ''Hello'' ''hello'' ''published'' (Some noon) 0) = ''hello''"
    "BlogPost.slug (demo_post ''Notes'' ''notes'' ''draft'' None 7) = ''notes''"
    by (simp_all add: demo_post_def)
  have vc: "BlogPost.view_count (demo_post ''Hello'' ''hello'' ''published'' (Some noon) 3) =
      BlogPost.view_count (demo_post ''Hello'' ''hello'' ''published'' (Some noon) 0) +
        int (length [noon, evening, evening])"
    by (simp add: demo_post_def)
  show ?thesis
    using C6_view_count [OF wf m1, of "[noon, evening, evening]" noon]
      C6_view_count [OF wf m2, of "[noon]" noon] wf m1 m2 st vc
    by (simp add: retrieve_examples del: retrieve_all.simps)
qed

section \<open>The project listing (C7)\<close>

lemma starts_with_iff: "starts_with s n \<longleftrightarrow> (\<exists>b. s = n @ b)"
  by (induction s n rule: starts_with.induct) auto

lemma contains_iff: "contains s n \<longleftrightarrow> (\<exists>a b. s = a @ n @ b)"
proof (induction s)
  case Nil
  then show ?case by simp
next
  case (Cons c cs)
  show ?case
  proof
    assume "contains (c # cs) n"
    then consider "starts_with (c # cs) n" | "contains cs n" by auto
    then show "\<exists>a b. c # cs = a @ n @ b"
    proof cases
      case 1
      then obtain b where "c # cs = n @ b" by (auto simp: starts_with_iff)
      then have "c # cs = [] @ n @ b" by simp
      then show ?thesis by blast
    next
      case 2
      then obtain a b where "cs = a @ n @ b" using Cons.IH by blast
      then have "c # cs = (c # a) @ n @ b" by simp
      then show ?thesis by blast
    qed
  next
    assume "\<exists>a b. c # cs = a @ n @ b"
    then obtain a b where ab: "c # cs = a @ n @ b" by blast
    show "contains (c # cs) n"
    proof (cases a)
      case Nil
      then have "starts_with (c # cs) n" using ab by (auto simp: starts_with_iff)
      then show ?thesis by simp
    next
      case (Cons x a')
      then have "cs = a' @ n @ b" using ab by simp
      then have "contains cs n" using Cons.IH by blast
      then show ?thesis by simp
    qed
  qed
qed

lemma icontains_iff: "icontains str search \<longleftrightarrow> (\<exists>a b. lower str = a @ lower search @ b)"
  by (simp add: icontains_def contains_iff)

lemma contains_empty: "contains s []"
  by (cases s) simp_all

lemma icontains_empty: "icontains str []"
  by (simp add: icontains_def lower_def contains_empty)

lemma get_queryset_filter:
  "ProjectsListView_get_queryset db cat (Some q) =
     filter (\<lambda>(k, p). (case cat of None \<Rightarrow> True | Some c \<Rightarrow> c = [] \<or> category__slug db c p) \<and>
                      (icontains (Project.title p) q \<or> icontains (Project.situation p) q \<or>
                       icontains (Project.action p) q))
       (projects db)"
proof (cases "q = []")
  case True
  then show ?thesis
    by (cases cat)
      (auto simp: ProjectsListView_get_queryset_def qs_filter_def Let_def icontains_empty
        intro: filter_cong)
next
  case False
  then show ?thesis
    by (cases cat)
      (auto simp: ProjectsListView_get_queryset_def qs_filter_def Let_def intro: filter_cong)
qed

lemma category__slug_unknown:
  "\<forall>(k, g) \<in> set (project_categories db). ProjectCategory.slug g \<noteq> c \<Longrightarrow> \<not> category__slug db c p"
  by (auto simp: category__slug_def split: option.splits dest: map_of_SomeD)

text \<open>
  C7. With a search parameter \<open>q\<close>, the project listing holds exactly the projects
  that pass the category filter, if one is given, and whose title, situation or action
  contains \<open>q\<close> as a substring when letters are compared without case. A non-empty
  category slug that no category has gives the empty listing, not an error. (An empty
  \<open>category\<close> parameter is no filter.)
\<close>

theorem C7_project_search:
  "((k, p) \<in> set (ProjectsListView_get_queryset db cat (Some q)) \<longleftrightarrow>
      (k, p) \<in> set (projects db) \<and>
      (case cat of None \<Rightarrow> True | Some c \<Rightarrow> c = [] \<or> category__slug db c p) \<and>
      ((\<exists>a b. lower (Project.title p) = a @ lower q @ b) \<or>
       (\<exists>a b. lower (Project.situation p) = a @ lower q @ b) \<or>
       (\<exists>a b. lower (Project.action p) = a @ lower q @ b))) \<and>
   (c \<noteq> [] \<and> (\<forall>(k', g) \<in> set (project_categories db). ProjectCategory.slug g \<noteq> c) \<longrightarrow>
      ProjectsListView_get_queryset db (Some c) search = [])"
proof (intro conjI impI)
  show "(k, p) \<in> set (ProjectsListView_get_queryset db cat (Some q)) \<longleftrightarrow>
      (k, p) \<in> set (projects db) \<and>
      (case cat of None \<Rightarrow> True | Some c \<Rightarrow> c = [] \<or> category__slug db c p) \<and>
      ((\<exists>a b. lower (Project.title p) = a @ lower q @ b) \<or>
       (\<exists>a b. lower (Project.situation p) = a @ lower q @ b) \<or>
       (\<exists>a b. lower (Project.action p) = a @ lower q @ b))"
    by (auto simp: get_queryset_filter icontains_iff)
next
  assume h: "c \<noteq> [] \<and> (\<forall>(k', g) \<in> set (project_categories db). ProjectCategory.slug g \<noteq> c)"
  then have "\<And>p. \<not> category__slug db c p"
    using category__slug_unknown [of db c] by blast
  then have "qs_filter (category__slug db c) (projects db) = []"
    by (auto simp: qs_filter_def filter_empty_conv)
  then show "ProjectsListView_get_queryset db (Some c) search = []"
    using h by (simp add: ProjectsListView_get_queryset_def qs_filter_def split: option.splits)
qed

lemma search_examples:
  "ProjectsListView_get_queryset portfolio_db None (Some ''django'') =
     [(1, demo_project ''Django Shop'' ''django-shop'' (Some 1) ''Orders by phone'' ''Built a shop''),
      (2, demo_project ''Team Blog'' ''team-blog'' None ''Needed a DJANGO site'' ''Wrote it'')]"
  "ProjectsListView_get_queryset portfolio_db (Some ''web-apps'') (Some ''django'') =
     [(1, demo_project ''Django Shop'' ''django-shop'' (Some 1) ''Orders by phone'' ''Built a shop'')]"
  "ProjectsListView_get_queryset portfolio_db (Some ''web-apps'') (Some ''RUST'') =
     [(3, demo_project ''CLI Tool'' ''cli-tool'' (Some 1) ''Slow scripts'' ''Rewrote in Rust'')]"
  "ProjectsListView_get_queryset portfolio_db (Some ''nope'') (Some ''django'') = []"
  by code_simp+

theorem C7_project_search_witness:
  "(1, demo_project ''Django Shop'' ''django-shop'' (Some 1) ''Orders by phone'' ''Built a shop'')
     \<in> set (ProjectsListView_get_queryset portfolio_db (Some ''web-apps'') (Some ''django'')) \<and>
   (3, demo_project ''CLI Tool'' ''cli-tool'' (Some 1) ''Slow scripts'' ''Rewrote in Rust'')
     \<notin> set (ProjectsListView_get_queryset portfolio_db (Some ''web-apps'') (Some ''django'')) \<and>
   ''nope'' \<noteq> [] \<and>
   project_categories portfolio_db = [(1, demo_category ''Web Apps'' ''web-apps'')] \<and>
   ProjectCategory.slug (demo_category ''Web Apps'' ''web-apps'') \<noteq> ''nope'' \<and>
   ProjectsListView_get_queryset portfolio_db (Some ''nope'') (Some ''django'') = []"
proof -
  have cats: "project_categories portfolio_db = [(1, demo_category ''Web Apps'' ''web-apps'')]"
    by (simp add: portfolio_db_def backend_db_def empty_db_def)
  have slug: "ProjectCategory.slug (demo_category ''Web Apps'' ''web-apps'') \<noteq> ''nope''"
    by (simp add: demo_category_def)
  have unknown: "''nope'' \<noteq> [] \<and>
      (\<forall>(k', g) \<in> set (project_categories portfolio_db). ProjectCategory.slug g \<noteq> ''nope'')"
    using cats slug by simp
  have differ: "demo_project ''CLI Tool'' ''cli-tool'' (Some 1) ''Slow scripts'' ''Rewrote in Rust'' \<noteq>
      demo_project ''Django Shop'' ''django-shop'' (Some 1) ''Orders by phone'' ''Built a shop''"
    by (simp add: demo_project_def)
  show ?thesis
    using C7_project_search [of 1
        "demo_project ''Django Shop'' ''django-shop'' (Some 1) ''Orders by phone'' ''Built a shop''"
        portfolio_db "Some ''web-apps''" "''django''" "''nope''" "Some ''django''"]
      unknown cats slug differ
    by (simp add: search_examples)
qed

section \<open>Export with a missing singleton (C8)\<close>

text \<open>
  Without an active profile the export prints the warning and writes no profile file.
  Without an active settings row it does not warn: \<open>get_settings\<close> creates the
  default row, and the export writes \<open>site.json\<close> from it.
\<close>

lemma export_profile_missing:
  assumes "active_profiles (ex_db st) = 0"
  shows "export_profile st = Inr (stdout_write (WARNING ''No profile found'') st)"
proof -
  have "qs_filter Profile.is_active (profiles (ex_db st)) = []"
    using assms by (simp add: active_profiles_def)
  then show ?thesis by (simp add: export_profile_def qs_get_def)
qed

lemma export_site_settings_missing:
  assumes "active_settings (ex_db st) = 0"
  shows "\<exists>data. export_site_settings st =
           Inr (st\<lparr>ex_db := (ex_db st)\<lparr>site_settings := site_settings (ex_db st) @
                         [(fresh_pk (site_settings (ex_db st)), default_settings)]\<rparr>,
                    written := AList.update ''site.json'' data (written st),
                    stdout := stdout st @ [Plain ''Exported site.json'']\<rparr>)"
proof -
  have "active_settings (ex_db st) \<le> 1" using assms by simp
  then have "get_settings (ex_db st) =
      Inr ((ex_db st)\<lparr>site_settings := site_settings (ex_db st) @
              [(fresh_pk (site_settings (ex_db st)), default_settings)]\<rparr>,
           (fresh_pk (site_settings (ex_db st)), default_settings))"
    using assms
    by (simp add: get_settings_def active_settings_def qs_get_def SiteSettings_save_def
        qs_update_none Model_save_free update_fresh [OF fresh_pk_fresh] Let_def
        default_settings_def)
  then show ?thesis
    by (simp add: export_site_settings_def write_file_def stdout_write_def) blast
qed

text \<open>
  C8. The claim expects a run without a \<open>SiteSettings\<close> row to warn and to skip
  \<open>site.json\<close> without creating a row. On the empty database the run warns about the
  missing profile and exports the other collections, but it inserts a settings row,
  writes \<open>site.json\<close> and prints no warning for the settings.
\<close>

theorem C8_export_creates_settings:
  "handle empty_db [] =
     Inr \<lparr>ex_db = empty_db\<lparr>site_settings := [(1, default_settings)]\<rparr>,
          written =
            [(''skills.json'', JList []), (''projects.json'', JList []),
             (''experience.json'', JList []), (''certifications.json'', JList []),
             (''blog.json'', JList []),
             (''site.json'', JObj
                [(''site_title'', JStr ''Portfolio''), (''site_tagline'', JStr []),
                 (''site_description'', JNull),
                 (''contact_email'', JStr ''contact@example.com''),
                 (''contact_phone'', JNull),
                 (''social'', JObj
                    [(''github'', JNull), (''linkedin'', JNull), (''twitter'', JNull)]),
                 (''features'', JObj
                    [(''enable_blog'', JBool True), (''enable_contact_form'', JBool True)])])],
          stdout =
            [Plain ''Exporting portfolio data to JSON...'', WARNING ''No profile found'',
             Plain ''Exported 0 skills'', Plain ''Exported 0 projects'',
             Plain ''Exported 0 experiences'', Plain ''Exported 0 certifications'',
             Plain ''Exported 0 blog posts'', Plain ''Exported site.json'',
             SUCCESS ''Export completed!'']\<rparr>"
  by code_simp

section \<open>The settings accessor (C9)\<close>

text \<open>A save never takes the table from at most one active row to more.\<close>

lemma SiteSettings_save_keeps_singleton:
  assumes "active_settings db \<le> 1" and "SiteSettings_save db self = Inr (db', saved)"
  shows "active_settings db' \<le> 1"
proof (cases "SiteSettings.is_active (snd self)")
  case True
  define tbl1 where
    "tbl1 = qs_update SiteSettings.is_active (\<lambda>r. r\<lparr>SiteSettings.is_active := False\<rparr>)
              (site_settings db)"
  have "\<forall>(k', r') \<in> set tbl1. \<not> SiteSettings.is_active r'"
    unfolding tbl1_def by (auto dest: qs_update_clears [rotated])
  then have none: "filter (\<lambda>(k', r'). SiteSettings.is_active r') tbl1 = []"
    by (auto simp: filter_empty_conv)
  define k where "k = (case fst self of Some k \<Rightarrow> k | None \<Rightarrow> fresh_pk tbl1)"
  have tbl': "site_settings db' = AList.update k (snd self) tbl1"
    using assms(2) True unfolding tbl1_def k_def
    by (auto simp: SiteSettings_save_def Model_save_free Let_def)
  have "length (filter (\<lambda>(k', r'). SiteSettings.is_active r') (AList.update k (snd self) tbl1))
      \<le> length (filter (\<lambda>(k', r'). SiteSettings.is_active r') tbl1) + 1"
    using update_count_le [of SiteSettings.is_active k "snd self" tbl1] True by simp
  then show ?thesis
    using none by (simp add: active_settings_def qs_filter_def tbl')
next
  case False
  define k where "k = (case fst self of Some k \<Rightarrow> k | None \<Rightarrow> fresh_pk (site_settings db))"
  have tbl': "site_settings db' = AList.update k (snd self) (site_settings db)"
    using assms(2) False unfolding k_def
    by (auto simp: SiteSettings_save_def Model_save_free Let_def)
  have "length (filter (\<lambda>(k', r'). SiteSettings.is_active r')
          (AList.update k (snd self) (site_settings db)))
      \<le> length (filter (\<lambda>(k', r'). SiteSettings.is_active r') (site_settings db))"
    using update_count_le [of SiteSettings.is_active k "snd self" "site_settings db"] False
    by simp
  then show ?thesis
    using assms(1) by (simp add: active_settings_def qs_filter_def tbl')
qed

lemma get_settings_many_active:
  assumes "2 \<le> active_settings db"
  shows "get_settings db = Inl MultipleObjectsReturned"
proof -
  obtain x y zs where "qs_filter SiteSettings.is_active (site_settings db) = x # y # zs"
    using assms unfolding active_settings_def
    by (cases "qs_filter SiteSettings.is_active (site_settings db)" rule: list.exhaust)
      (auto simp: Suc_le_eq length_Suc_conv neq_Nil_conv)
  then show ?thesis by (simp add: get_settings_def qs_get_def)
qed

text \<open>
  C9 (as amended). In every state with at most one active settings row (the invariant
  that \<open>SiteSettings.save\<close> keeps), \<open>get_settings\<close> returns an active settings row
  and raises nothing: the active row when there is one, the database unchanged, and
  otherwise a new row with the defaults (site title "Portfolio", contact email
  "contact@example.com"), which it adds to the table. With two or more active rows it
  raises \<open>MultipleObjectsReturned\<close> (lemma \<open>get_settings_many_active\<close>).
\<close>

theorem C9_get_settings:
  assumes "active_settings db \<le> 1"
  shows "(\<exists>db' k s. get_settings db = Inr (db', (k, s)) \<and> SiteSettings.is_active s \<and>
            (k, s) \<in> set (site_settings db')) \<and>
         (if active_settings db = 0
          then get_settings db =
                 Inr (db\<lparr>site_settings :=
                          site_settings db @ [(fresh_pk (site_settings db), default_settings)]\<rparr>,
                      (fresh_pk (site_settings db), default_settings))
          else \<exists>k s. get_settings db = Inr (db, (k, s)) \<and> (k, s) \<in> set (site_settings db)) \<and>
         SiteSettings.site_title default_settings = ''Portfolio'' \<and>
         SiteSettings.contact_email default_settings = ''contact@example.com''"
proof (cases "active_settings db = 0")
  case True
  then have none: "qs_filter SiteSettings.is_active (site_settings db) = []"
    by (simp add: active_settings_def)
  have act: "SiteSettings.is_active default_settings"
    by (simp add: default_settings_def)
  have "get_settings db = SiteSettings_save db (None, default_settings)"
    by (simp add: get_settings_def qs_get_def none)
  also have "\<dots> = Inr (db\<lparr>site_settings :=
                          site_settings db @ [(fresh_pk (site_settings db), default_settings)]\<rparr>,
                      (fresh_pk (site_settings db), default_settings))"
    by (simp add: SiteSettings_save_def act qs_update_none [OF none] Model_save_free
        update_fresh [OF fresh_pk_fresh] Let_def)
  finally show ?thesis using True act by (simp add: default_settings_def)
next
  case False
  with assms have "length (qs_filter SiteSettings.is_active (site_settings db)) = 1"
    unfolding active_settings_def by linarith
  from qs_get_one [OF this] obtain k s where
    g: "qs_get SiteSettings.is_active (site_settings db) = Inr (k, s)"
    and m: "(k, s) \<in> set (site_settings db)" and a: "SiteSettings.is_active s"
    by blast
  have "get_settings db = Inr (db, (k, s))"
    by (simp add: get_settings_def g)
  then show ?thesis using False m a by (auto simp: default_settings_def)
qed

theorem C9_get_settings_witness:
  "active_settings empty_db \<le> 1 \<and>
   get_settings empty_db =
     Inr (empty_db\<lparr>site_settings := [(1, default_settings)]\<rparr>, (1, default_settings)) \<and>
   active_settings two_singletons_db \<le> 1 \<and>
   get_settings two_singletons_db = Inr (two_singletons_db, (1, demo_settings ''Site'' True))"
proof -
  have h0: "active_settings empty_db \<le> 1"
    by (simp add: active_settings_def qs_filter_def empty_db_def)
  have h1: "active_settings two_singletons_db \<le> 1"
    by (simp add: active_settings_def qs_filter_def two_singletons_db_def empty_db_def
        demo_settings_def)
  have z: "active_settings empty_db = 0" "site_settings empty_db = []"
    by (simp_all add: active_settings_def qs_filter_def empty_db_def)
  have e: "get_settings two_singletons_db = Inr (two_singletons_db, (1, demo_settings ''Site'' True))"
    by (simp add: get_settings_def qs_get_def qs_filter_def two_singletons_db_def empty_db_def
        demo_settings_def)
  show ?thesis
    using C9_get_settings [OF h0] C9_get_settings [OF h1] h0 h1 z e
    by (simp add: fresh_pk_def)
qed

text \<open>
  C9 as stated, for every state, fails: \<open>is_active\<close> has no uniqueness constraint, and
  on a table with two active settings rows the lookup of \<open>get_or_create\<close> raises.
\<close>

theorem C9_two_active_counterexample:
  "active_settings two_active_db = 2 \<and> get_settings two_active_db = Inl MultipleObjectsReturned"
  by (simp add: active_settings_def get_settings_def qs_get_def qs_filter_def two_active_db_def
      empty_db_def demo_settings_def)

section \<open>The profile endpoint (C10)\<close>

text \<open>
  C10. When no profile row is active, \<open>profile_json\<close> answers with status 200 and the
  empty JSON object; otherwise it answers with status 200 and the name, title, bio,
  summary, email and social links of an active profile, the one of least primary key.
\<close>

theorem C10_profile_json:
  "(active_profiles db = 0 \<longrightarrow> profile_json db = \<lparr>status_code = 200, body = JObj []\<rparr>) \<and>
   (active_profiles db \<noteq> 0 \<longrightarrow>
      (\<exists>k profile. (k, profile) \<in> set (profiles db) \<and> Profile.is_active profile \<and>
         (\<forall>(k', r') \<in> set (profiles db). Profile.is_active r' \<longrightarrow> k \<le> k') \<and>
         profile_json db =
           \<lparr>status_code = 200,
            body = JObj
              [(''name'', JStr (Profile.name profile)),
               (''title'', JStr (Profile.job_title profile)),
               (''bio'', JStr (Profile.bio profile)),
               (''summary'', JStr (Profile.summary profile)),
               (''email'', JStr (Profile.email profile)),
               (''social'', JObj
                  [(''github'', json_opt (Profile.github_url profile)),
                   (''linkedin'', json_opt (Profile.linkedin_url profile)),
                   (''twitter'', json_opt (Profile.twitter_url profile))])]\<rparr>))"
proof (intro conjI impI)
  assume "active_profiles db = 0"
  then have "qs_filter Profile.is_active (profiles db) = []"
    by (simp add: active_profiles_def)
  then show "profile_json db = \<lparr>status_code = 200, body = JObj []\<rparr>"
    by (simp add: profile_json_def qs_first_def JsonResponse_def)
next
  assume "active_profiles db \<noteq> 0"
  then have "qs_filter Profile.is_active (profiles db) \<noteq> []"
    by (simp add: active_profiles_def)
  from qs_first_Some [OF this] obtain k r where
    "qs_first Profile.is_active (profiles db) = Some (k, r)" "(k, r) \<in> set (profiles db)"
    "Profile.is_active r" "\<forall>(k', r') \<in> set (profiles db). Profile.is_active r' \<longrightarrow> k \<le> k'"
    by blast
  then show "\<exists>k profile. (k, profile) \<in> set (profiles db) \<and> Profile.is_active profile \<and>
         (\<forall>(k', r') \<in> set (profiles db). Profile.is_active r' \<longrightarrow> k \<le> k') \<and>
         profile_json db =
           \<lparr>status_code = 200,
            body = JObj
              [(''name'', JStr (Profile.name profile)),
               (''title'', JStr (Profile.job_title profile)),
               (''bio'', JStr (Profile.bio profile)),
               (''summary'', JStr (Profile.summary profile)),
               (''email'', JStr (Profile.email profile)),
               (''social'', JObj
                  [(''github'', json_opt (Profile.github_url profile)),
                   (''linkedin'', json_opt (Profile.linkedin_url profile)),
                   (''twitter'', json_opt (Profile.twitter_url profile))])]\<rparr>"
    by (intro exI [of _ k] exI [of _ r]) (simp add: profile_json_def JsonResponse_def)
qed

theorem C10_profile_json_witness:
  "active_profiles empty_db = 0 \<and>
   profile_json empty_db = \<lparr>status_code = 200, body = JObj []\<rparr> \<and>
   active_profiles two_singletons_db \<noteq> 0 \<and>
   profile_json two_singletons_db =
     \<lparr>status_code = 200,
      body = JObj
        [(''name'', JStr ''Ann''), (''title'', JStr ''Engineer''), (''bio'', JStr ''Bio''),
         (''summary'', JStr ''Summary''), (''email'', JStr ''me@example.com''),
         (''social'', JObj
            [(''github'', JStr ''https://github.com/me''), (''linkedin'', JNull),
             (''twitter'', JNull)])]\<rparr>"
proof -
  have a0: "active_profiles empty_db = 0"
    by (simp add: active_profiles_def qs_filter_def empty_db_def)
  have a1: "active_profiles two_singletons_db \<noteq> 0"
    by (simp add: active_profiles_def qs_filter_def two_singletons_db_def empty_db_def
        demo_profile_def)
  have rows: "profiles two_singletons_db =
      [(1, demo_profile ''Ann'' True), (2, demo_profile ''Bob'' False)]"
    by (simp add: two_singletons_db_def empty_db_def)
  show ?thesis
    using C10_profile_json [of empty_db] C10_profile_json [of two_singletons_db] a0 a1
    by (auto simp: rows demo_profile_def json_opt_def)
qed

end
